theory Spec2Isabelle
  imports Complex_Main
begin

section \<open>Numbers\<close>

text \<open>
  A JavaScript \<^verbatim>\<open>number\<close> is a binary64 floating-point value: 53 significant
  bits, every operation rounded to the nearest value. The exponent is unbounded in the
  model, and NaN and the infinities are not in it: the values that are rounded below lie
  between \<open>2\<^sup>-\<^sup>2\<close> and \<open>2\<^sup>3\<^sup>9\<close> for any array a program can hold (fewer than
  \<open>2\<^sup>3\<^sup>2\<close> elements), far from overflow and underflow.

  The health score is computed over \<^typ>\<open>real\<close>: what it adds and subtracts (100, 25,
  12.5, 20, 10, 15, 7.5, 5, 2) is exact in binary64, so the running score has no rounding
  error. \<^verbatim>\<open>runDiagnosis\<close> is kept over the reals as well: its products are by 0, 0.5
  and 1, which binary64 computes exactly, and a certainty factor is the real its decimal
  literal names. \<^verbatim>\<open>calculateConclusion\<close> divides and multiplies, and there every
  operation is rounded to binary64 by \<open>fl\<close>.
\<close>

text \<open>The nearest integer, a tie going to the even one.\<close>

definition rne :: "real \<Rightarrow> int" where
  "rne x =
     (let f = \<lfloor>x\<rfloor>; r = x - of_int f
      in if r < 1 / 2 then f
         else if r > 1 / 2 then f + 1
         else if even f then f else f + 1)"

text \<open>
  The nearest binary64 value: 53 significant bits, so a number in the binade
  \<open>2\<^sup>e \<le> \<bar>x\<bar> < 2\<^sup>e\<^sup>+\<^sup>1\<close> is rounded to a multiple of \<open>2\<^sup>e\<^sup>-\<^sup>5\<^sup>2\<close>, a tie going
  to the even multiple.
\<close>

definition fl :: "real \<Rightarrow> real" where
  "fl x =
     (if x = 0 then 0
      else
        (let e = \<lfloor>log 2 \<bar>x\<bar>\<rfloor>;
             u = 2 powr (of_int e - 52)
         in sgn x * of_int (rne (\<bar>x\<bar> / u)) * u))"

text \<open>\<^verbatim>\<open>Math.round\<close>: the nearest integer, a tie going up.\<close>

definition Math_round :: "real \<Rightarrow> real" where
  "Math_round x = of_int \<lfloor>x + 1 / 2\<rfloor>"

text \<open>
  \<^verbatim>\<open>x.toFixed(f)\<close>, as the number its digits name: the sign is split off, and the
  magnitude goes to the nearest multiple of \<open>10\<^sup>-\<^sup>f\<close> of the exact value of \<open>x\<close>,
  the larger one on a tie.
\<close>

definition toFixed :: "nat \<Rightarrow> real \<Rightarrow> real" where
  "toFixed f x =
     (if x < 0 then - (of_int \<lfloor>(- x) * 10 ^ f + 1 / 2\<rfloor> / 10 ^ f)
      else of_int \<lfloor>x * 10 ^ f + 1 / 2\<rfloor> / 10 ^ f)"

section \<open>Health score: \<^verbatim>\<open>src/lib/calculateHealthScore.ts\<close>\<close>

text \<open>
  A field declared \<^verbatim>\<open>x?: number\<close>. At run time it holds a number, is
  \<^verbatim>\<open>undefined\<close> (the key is missing) or is \<^verbatim>\<open>null\<close>: the prediction endpoint
  passes the values of a JSON body on as they are, and \<^verbatim>\<open>addFactor\<close> itself tests
  for \<^verbatim>\<open>null\<close>.
\<close>

datatype OptNumber = Undefined | Null | Num real

text \<open>
  The interface \<^verbatim>\<open>SensorReading\<close>. The field \<^verbatim>\<open>power\<close> is written
  \<open>power_r\<close>, the name \<open>power\<close> being HOL's exponentiation.
\<close>

record SensorReading =
  gridVoltage :: OptNumber
  motorCurrent :: OptNumber
  power_r :: OptNumber
  powerFactor :: OptNumber
  gridFrequency :: OptNumber
  vibrationRms :: OptNumber
  vibrationPeakG :: OptNumber
  motorSurfaceTemp :: OptNumber
  bearingTemp :: OptNumber
  ambientTemp :: OptNumber
  dustDensity :: OptNumber

text \<open>
  \<^verbatim>\<open>StatusResult\<close> is declared in \<^verbatim>\<open>lib/thresholds\<close>; its four fields are read
  off the object literals of \<^verbatim>\<open>addFactor\<close>.
\<close>

record StatusResult =
  level :: string
  label :: string
  color :: string
  bgColor :: string

definition status_normal :: StatusResult where
  "status_normal = \<lparr>level = ''normal'', label = ''Normal'',
     color = ''text-status-normal'', bgColor = ''bg-status-normal''\<rparr>"

definition status_warning :: StatusResult where
  "status_warning = \<lparr>level = ''warning'', label = ''Warning'',
     color = ''text-status-warning'', bgColor = ''bg-status-warning''\<rparr>"

definition status_critical :: StatusResult where
  "status_critical = \<lparr>level = ''critical'', label = ''Critical'',
     color = ''text-status-critical'', bgColor = ''bg-status-critical''\<rparr>"

text \<open>
  \<^verbatim>\<open>HealthFactor\<close>; the field \<^verbatim>\<open>value\<close> is written \<open>value_f\<close>. It is
  declared a number; the voltage and frequency blocks store the field of the reading as
  it is, which can be \<^verbatim>\<open>null\<close>.
\<close>

record HealthFactor =
  parameter :: string
  value_f :: OptNumber
  status :: StatusResult
  penalty :: real

datatype Category = Healthy | At_Risk | Critical

record HealthScoreResult =
  score :: real
  category :: Category
  factors :: "HealthFactor list"

record Thresholds =
  warning :: real
  critical :: real
  isLower :: bool

text \<open>
  The two locals the closure \<^verbatim>\<open>addFactor\<close> mutates, \<^verbatim>\<open>score\<close> and
  \<^verbatim>\<open>factors\<close>, are passed and returned as a pair.
\<close>

type_synonym acc = "real \<times> HealthFactor list"

definition addFactor :: "string \<Rightarrow> OptNumber \<Rightarrow> Thresholds \<Rightarrow> real \<Rightarrow> acc \<Rightarrow> acc" where
  "addFactor param v thresholds maxPenalty st =
     (case v of
        Undefined \<Rightarrow> st
      | Null \<Rightarrow> st
      | Num x \<Rightarrow>
          (let (stat, pen) =
                 (if isLower thresholds then
                    (if x < critical thresholds then (status_critical, maxPenalty)
                     else if x < warning thresholds then (status_warning, maxPenalty * 0.5)
                     else (status_normal, 0))
                  else
                    (if x > critical thresholds then (status_critical, maxPenalty)
                     else if x > warning thresholds then (status_warning, maxPenalty * 0.5)
                     else (status_normal, 0)))
           in if pen > 0
              then (fst st - pen,
                    snd st @ [\<lparr>parameter = param, value_f = Num x, status = stat,
                               penalty = pen\<rparr>])
              else st))"

text \<open>The literal arguments of the six \<^verbatim>\<open>addFactor\<close> calls, in source order.\<close>

definition vibrationRms_thresholds :: Thresholds where
  "vibrationRms_thresholds = \<lparr>warning = 2.8, critical = 4.5, isLower = False\<rparr>"
definition vibrationRms_maxPenalty :: real where
  "vibrationRms_maxPenalty = 25"

definition motorSurfaceTemp_thresholds :: Thresholds where
  "motorSurfaceTemp_thresholds = \<lparr>warning = 70, critical = 85, isLower = False\<rparr>"
definition motorSurfaceTemp_maxPenalty :: real where
  "motorSurfaceTemp_maxPenalty = 20"

definition bearingTemp_thresholds :: Thresholds where
  "bearingTemp_thresholds = \<lparr>warning = 65, critical = 80, isLower = False\<rparr>"
definition bearingTemp_maxPenalty :: real where
  "bearingTemp_maxPenalty = 20"

definition motorCurrent_thresholds :: Thresholds where
  "motorCurrent_thresholds = \<lparr>warning = 4.6, critical = 5.5, isLower = False\<rparr>"
definition motorCurrent_maxPenalty :: real where
  "motorCurrent_maxPenalty = 15"

definition powerFactor_thresholds :: Thresholds where
  "powerFactor_thresholds = \<lparr>warning = 0.85, critical = 0.70, isLower = True\<rparr>"
definition powerFactor_maxPenalty :: real where
  "powerFactor_maxPenalty = 15"

definition dustDensity_thresholds :: Thresholds where
  "dustDensity_thresholds = \<lparr>warning = 50, critical = 100, isLower = False\<rparr>"
definition dustDensity_maxPenalty :: real where
  "dustDensity_maxPenalty = 10"

text \<open>
  The voltage block (lines 144 to 165): deviation from the nominal 220 V. The block is
  guarded by \<^verbatim>\<open>!== undefined\<close> only, so \<^verbatim>\<open>null\<close> enters it, and the
  subtraction reads \<^verbatim>\<open>null\<close> as 0. \<open>voltageBlock v x\<close> is the body of the block
  for the field \<open>v\<close> read as the number \<open>x\<close>.
\<close>

definition voltageBlock :: "OptNumber \<Rightarrow> real \<Rightarrow> acc \<Rightarrow> acc" where
  "voltageBlock v x st =
     (let nominalVoltage = 220;
          deviation = \<bar>x - nominalVoltage\<bar> / nominalVoltage
      in if deviation > 0.15
         then (fst st - 10,
               snd st @ [\<lparr>parameter = ''gridVoltage'', value_f = v,
                          status = status_critical, penalty = 10\<rparr>])
         else if deviation > 0.10
         then (fst st - 5,
               snd st @ [\<lparr>parameter = ''gridVoltage'', value_f = v,
                          status = status_warning, penalty = 5\<rparr>])
         else st)"

definition voltageCheck :: "OptNumber \<Rightarrow> acc \<Rightarrow> acc" where
  "voltageCheck v st =
     (case v of
        Undefined \<Rightarrow> st
      | Null \<Rightarrow> voltageBlock Null 0 st
      | Num x \<Rightarrow> voltageBlock (Num x) x st)"

text \<open>
  The frequency block (lines 180 to 200): deviation from 50 Hz, with the same guard.
\<close>

definition frequencyBlock :: "OptNumber \<Rightarrow> real \<Rightarrow> acc \<Rightarrow> acc" where
  "frequencyBlock v x st =
     (let deviation = \<bar>x - 50\<bar> / 50
      in if deviation > 0.02
         then (fst st - 5,
               snd st @ [\<lparr>parameter = ''gridFrequency'', value_f = v,
                          status = status_critical, penalty = 5\<rparr>])
         else if deviation > 0.01
         then (fst st - 2,
               snd st @ [\<lparr>parameter = ''gridFrequency'', value_f = v,
                          status = status_warning, penalty = 2\<rparr>])
         else st)"

definition frequencyCheck :: "OptNumber \<Rightarrow> acc \<Rightarrow> acc" where
  "frequencyCheck v st =
     (case v of
        Undefined \<Rightarrow> st
      | Null \<Rightarrow> frequencyBlock Null 0 st
      | Num x \<Rightarrow> frequencyBlock (Num x) x st)"

text \<open>
  Lines 53 to 200 of \<^verbatim>\<open>calculateHealthScore\<close>: the eight checks in source order,
  starting from the score 100 and no factor.
\<close>

definition accumulate :: "SensorReading \<Rightarrow> acc" where
  "accumulate reading =
     frequencyCheck (gridFrequency reading)
       (addFactor ''dustDensity'' (dustDensity reading)
          dustDensity_thresholds dustDensity_maxPenalty
       (voltageCheck (gridVoltage reading)
       (addFactor ''powerFactor'' (powerFactor reading)
          powerFactor_thresholds powerFactor_maxPenalty
       (addFactor ''motorCurrent'' (motorCurrent reading)
          motorCurrent_thresholds motorCurrent_maxPenalty
       (addFactor ''bearingTemp'' (bearingTemp reading)
          bearingTemp_thresholds bearingTemp_maxPenalty
       (addFactor ''motorSurfaceTemp'' (motorSurfaceTemp reading)
          motorSurfaceTemp_thresholds motorSurfaceTemp_maxPenalty
       (addFactor ''vibrationRms'' (vibrationRms reading)
          vibrationRms_thresholds vibrationRms_maxPenalty
       (100, []))))))))"

text \<open>
  Lines 202 to 222: the clamp, the category (decided on the clamped score, before it is
  rounded), the stable sort of the factors by descending penalty, and the rounding of the
  returned score.
\<close>

definition calculateHealthScore :: "SensorReading \<Rightarrow> HealthScoreResult" where
  "calculateHealthScore reading =
     (let st = accumulate reading;
          sc = max 0 (min 100 (fst st));
          cat = (if sc \<ge> 80 then Healthy else if sc \<ge> 60 then At_Risk else Critical);
          fs = sort_key (\<lambda>f. - penalty f) (snd st)
      in \<lparr>score = Math_round sc, category = cat, factors = fs\<rparr>)"

section \<open>Certainty-factor expert system: \<^verbatim>\<open>src/app/ai-center/page.tsx\<close>\<close>

datatype UserAnswer = No | Sometimes | Yes

text \<open>The fault levels \<^verbatim>\<open>"A" | "B" | "C"\<close> of \<^verbatim>\<open>DiagnosisResult\<close>.\<close>

datatype Level = Level_A | Level_B | Level_C

text \<open>
  \<^verbatim>\<open>Symptom\<close> and the catalog \<^verbatim>\<open>symptoms\<close> of \<^verbatim>\<open>lib/expert-system/symptoms\<close>;
  the field \<^verbatim>\<open>id\<close> is written \<open>sym_id\<close>.
\<close>

record Symptom =
  sym_id :: nat
  question :: string
  cfExpert :: real

definition symptoms :: "Symptom list" where
  "symptoms =
     [\<lparr>sym_id = 1, question = ''Motor does not rotate'', cfExpert = 1.0\<rparr>,
      \<lparr>sym_id = 2, question = ''Humming sound is heard'', cfExpert = 0.6\<rparr>,
      \<lparr>sym_id = 3, question = ''Motor rotation is slow'', cfExpert = 0.8\<rparr>,
      \<lparr>sym_id = 4, question = ''Motor heats up quickly'', cfExpert = 0.7\<rparr>,
      \<lparr>sym_id = 5, question = ''Burning smell from motor'', cfExpert = 1.0\<rparr>,
      \<lparr>sym_id = 6, question = ''MCB or fuse trips frequently'', cfExpert = 0.9\<rparr>,
      \<lparr>sym_id = 7, question = ''Excessive vibration'', cfExpert = 0.8\<rparr>,
      \<lparr>sym_id = 8, question = ''Rough or abnormal sound is heard'', cfExpert = 1.0\<rparr>,
      \<lparr>sym_id = 9, question = ''Capacitor is swollen'', cfExpert = 0.9\<rparr>,
      \<lparr>sym_id = 10, question = ''Motor is weak despite normal voltage'', cfExpert = 1.0\<rparr>]"

text \<open>
  The module \<^verbatim>\<open>lib/expert-system/rules\<close> is not among the sources. A rule has the
  six fields \<^verbatim>\<open>runDiagnosis\<close> reads (\<^verbatim>\<open>id\<close>, \<^verbatim>\<open>symptoms\<close>, \<^verbatim>\<open>operator\<close>,
  \<^verbatim>\<open>level\<close>, \<^verbatim>\<open>damage\<close>, \<^verbatim>\<open>solution\<close>), written with the prefix \<open>rule_\<close>, and the
  rule list is a parameter of \<open>runDiagnosis\<close>. The operator stays a string: the code
  compares it with \<^verbatim>\<open>"OR"\<close> and takes the minimum for anything else.
\<close>

record Rule =
  rule_id :: string
  rule_symptoms :: "nat list"
  rule_operator :: string
  rule_level :: Level
  rule_damage :: string
  rule_solution :: string

text \<open>\<^verbatim>\<open>DiagnosisResult\<close>; \<^verbatim>\<open>id\<close> and \<^verbatim>\<open>level\<close> are written \<open>res_id\<close>, \<open>res_level\<close>.\<close>

record DiagnosisResult =
  res_id :: string
  res_level :: Level
  damage :: string
  solution :: string
  cfRule :: real

text \<open>The state \<^verbatim>\<open>conclusion\<close>; \<^verbatim>\<open>label\<close> is written \<open>label_c\<close>.\<close>

record Conclusion =
  percent :: real
  label_c :: string

definition levelScore :: "Level \<Rightarrow> real" where
  "levelScore l = (case l of Level_A \<Rightarrow> 40 | Level_B \<Rightarrow> 70 | Level_C \<Rightarrow> 100)"

text \<open>
  Modelled from the spec: \<^verbatim>\<open>fuzzyLevelToValue\<close> of
  \<^verbatim>\<open>lib/expert-system/fuzzyMembership\<close> is not among the sources; the spec fixes the
  mapping No \<open>\<rightarrow>\<close> 0.0, Sometimes \<open>\<rightarrow>\<close> 0.5, Yes \<open>\<rightarrow>\<close> 1.0.
\<close>

definition fuzzyLevelToValue :: "UserAnswer \<Rightarrow> real" where
  "fuzzyLevelToValue a = (case a of No \<Rightarrow> 0.0 | Sometimes \<Rightarrow> 0.5 | Yes \<Rightarrow> 1.0)"

text \<open>
  The body of the inner \<^verbatim>\<open>forEach\<close> (lines 279 to 287). An answer is one of three
  non-empty strings, so \<^verbatim>\<open>userAnswer\<close> is truthy exactly when the symptom has one.
\<close>

definition collect :: "(nat \<rightharpoonup> UserAnswer) \<Rightarrow> nat \<Rightarrow> real list \<Rightarrow> real list" where
  "collect answers sid cfValues =
     (let userAnswer = answers sid;
          expertCF = map_option cfExpert (List.find (\<lambda>s. sym_id s = sid) symptoms)
      in case (userAnswer, expertCF) of
           (Some ua, Some ecf) \<Rightarrow> cfValues @ [fuzzyLevelToValue ua * ecf]
         | _ \<Rightarrow> cfValues)"

text \<open>
  The body of the outer \<^verbatim>\<open>forEach\<close> (lines 276 to 305). \<^verbatim>\<open>Math.max\<close> and
  \<^verbatim>\<open>Math.min\<close> are only reached with at least one argument.
\<close>

definition diagnoseRule ::
  "(nat \<rightharpoonup> UserAnswer) \<Rightarrow> Rule \<Rightarrow> DiagnosisResult list \<Rightarrow> DiagnosisResult list" where
  "diagnoseRule answers rule output =
     (case fold (collect answers) (rule_symptoms rule) [] of
        [] \<Rightarrow> output
      | v # vs \<Rightarrow>
          (let cf = (if rule_operator rule = ''OR'' then fold max vs v else fold min vs v)
           in if cf > 0
              then output @ [\<lparr>res_id = rule_id rule, res_level = rule_level rule,
                               damage = rule_damage rule, solution = rule_solution rule,
                               cfRule = toFixed 2 cf\<rparr>]
              else output))"

text \<open>
  \<^verbatim>\<open>calculateConclusion\<close>; the result is the new \<^verbatim>\<open>conclusion\<close> state. Each
  addition of the \<^verbatim>\<open>reduce\<close>, the product \<^verbatim>\<open>data.length * 100\<close>, the quotient and
  the product by 100 are rounded to binary64. The label is decided on \<^verbatim>\<open>percent\<close> as
  it is computed, before \<^verbatim>\<open>toFixed\<close>; \<^verbatim>\<open>Number(percent.toFixed(1))\<close> is the
  binary64 value nearest to the decimal that \<^verbatim>\<open>toFixed\<close> prints.
\<close>

definition calculateConclusion :: "DiagnosisResult list \<Rightarrow> Conclusion option" where
  "calculateConclusion data =
     (if length data = 0 then None
      else
        (let totalScore = foldl (\<lambda>sum r. fl (sum + levelScore (res_level r))) 0 data;
             pct = fl (fl (totalScore / fl (real (length data) * 100)) * 100);
             lbl = (if pct \<le> 40 then ''Minor''
                    else if pct \<le> 70 then ''Moderate''
                    else ''Severe'')
         in Some \<lparr>percent = fl (toFixed 1 pct), label_c = lbl\<rparr>))"

text \<open>
  \<^verbatim>\<open>runDiagnosis\<close>: the pair of the new \<^verbatim>\<open>results\<close> and \<^verbatim>\<open>conclusion\<close> states.
\<close>

definition runDiagnosis ::
  "Rule list \<Rightarrow> (nat \<rightharpoonup> UserAnswer) \<Rightarrow> DiagnosisResult list \<times> Conclusion option" where
  "runDiagnosis rules answers =
     (let output = fold (diagnoseRule answers) rules []
      in (output, calculateConclusion output))"

subsection \<open>The engine as the specification words it\<close>

text \<open>
  The evidence of a rule: for each referenced symptom with an answer, the fuzzy value of
  the answer times the symptom's expert certainty factor.
\<close>

definition spec_evidence :: "(nat \<rightharpoonup> UserAnswer) \<Rightarrow> Rule \<Rightarrow> real list" where
  "spec_evidence answers rule =
     List.map_filter
       (\<lambda>sid. case answers sid of
                 None \<Rightarrow> None
               | Some a \<Rightarrow>
                   (case List.find (\<lambda>s. sym_id s = sid) symptoms of
                      None \<Rightarrow> None
                    | Some s \<Rightarrow> Some (fuzzyLevelToValue a * cfExpert s)))
       (rule_symptoms rule)"

text \<open>The combination: the maximum for OR, the minimum for AND.\<close>

definition spec_combine :: "string \<Rightarrow> real list \<Rightarrow> real option" where
  "spec_combine operator ev =
     (if operator = ''OR'' then Some (Max (set ev))
      else if operator = ''AND'' then Some (Min (set ev))
      else None)"

text \<open>
  The result of one rule: none without evidence, otherwise one exactly when the combined
  value is positive, carrying that value rounded to two decimals.
\<close>

definition spec_diagnosis :: "(nat \<rightharpoonup> UserAnswer) \<Rightarrow> Rule \<Rightarrow> DiagnosisResult option" where
  "spec_diagnosis answers rule =
     (let ev = spec_evidence answers rule
      in if ev = [] then None
         else (case spec_combine (rule_operator rule) ev of
                 None \<Rightarrow> None
               | Some c \<Rightarrow>
                   if c > 0
                   then Some \<lparr>res_id = rule_id rule, res_level = rule_level rule,
                               damage = rule_damage rule, solution = rule_solution rule,
                               cfRule = of_int (round (c * 100)) / 100\<rparr>
                   else None))"

text \<open>
  The severity weights of the specification (Minor 40, Moderate 70, Severe 100; the
  levels A, B, C of the code are Minor, Moderate, Severe), and its percent
  \<open>(\<Sum> weight) / (count \<times> 100) \<times> 100\<close>, in exact arithmetic.
\<close>

definition spec_weight :: "Level \<Rightarrow> real" where
  "spec_weight l = (case l of Level_A \<Rightarrow> 40 | Level_B \<Rightarrow> 70 | Level_C \<Rightarrow> 100)"

definition spec_percent :: "DiagnosisResult list \<Rightarrow> real" where
  "spec_percent data =
     sum_list (map (\<lambda>r. spec_weight (res_level r)) data) / (real (length data) * 100) * 100"

section \<open>The prediction endpoint: \<^verbatim>\<open>POST /api/ml/predict\<close>\<close>

text \<open>
  The handler's own \<^verbatim>\<open>SensorData\<close> interface, fields prefixed \<open>sd_\<close>: it has no
  ambient temperature and no \<^verbatim>\<open>vibrationPeakG\<close>, and it has the Firebase field
  \<^verbatim>\<open>vibration_peak_g\<close>. The object comes out of a JSON body, so a field holds a
  number, is missing or is \<^verbatim>\<open>null\<close>; a member of another JSON type (a string, a
  boolean, an array, an object) is outside the model.
\<close>

record SensorData =
  sd_gridVoltage :: OptNumber
  sd_motorCurrent :: OptNumber
  sd_power :: OptNumber
  sd_powerFactor :: OptNumber
  sd_gridFrequency :: OptNumber
  sd_vibrationRms :: OptNumber
  sd_motorSurfaceTemp :: OptNumber
  sd_bearingTemp :: OptNumber
  sd_dustDensity :: OptNumber
  sd_vibration_peak_g :: OptNumber

record VibrationReading =
  vibration_rms :: real
  timestamp :: "real option"

record Classification =
  will_fail_soon :: bool
  failure_probability :: real
  confidence :: string
  threshold_minutes :: real

record Regression =
  minutes_to_failure :: real
  hours_to_failure :: real
  status_r :: string

record MLPredictionResponse =
  classification :: Classification
  regression :: Regression
  timestamp_ml :: string
  readings_used :: real

text \<open>
  The \<^verbatim>\<open>mlPrediction\<close> object of the response carries the classification and
  regression values under camel-case keys, and \<^verbatim>\<open>readingsUsed\<close>; the two inner
  records are reused for it.
\<close>

record MLPredictionOut =
  classification_o :: Classification
  regression_o :: Regression
  readingsUsed :: real

datatype MLStatus = available | unavailable | disabled

record PredictBody =
  success :: bool
  healthScore :: HealthScoreResult
  mlPrediction :: "MLPredictionOut option"
  mlServiceStatus :: MLStatus
  mlServiceError :: "string option"
  timestamp_o :: string

text \<open>
  The two returns of the handler: the 200 response, and the 500 of the outer catch, whose
  body is \<^verbatim>\<open>{error: 'Internal server error', details, success: false}\<close>; the
  argument of \<open>Json500\<close> is \<^verbatim>\<open>details\<close>.
\<close>

datatype Response =
  Json200 PredictBody
| Json500 string


text \<open>
  The request as \<^verbatim>\<open>request.json()\<close> delivers it.
  \<^item> \<open>BadJson\<close>: it rejects, with the message of the error if it is an \<^verbatim>\<open>Error\<close>.
  \<^item> \<open>NullBody\<close>: the body is the JSON value \<^verbatim>\<open>null\<close>. The destructuring on line
    62 then throws a \<^verbatim>\<open>TypeError\<close>; the argument is its message.
  \<^item> \<open>JsonBody\<close>: any other body. The destructuring gives its members
    \<^verbatim>\<open>vibrationReadings\<close> (never used afterwards) and \<^verbatim>\<open>sensorData\<close>, each
    \<^const>\<open>None\<close> when the body has no such member. \<^verbatim>\<open>sensorData?.field\<close> is
    \<^verbatim>\<open>undefined\<close> as well when \<^verbatim>\<open>sensorData\<close> is \<^verbatim>\<open>null\<close> or has no such
    property, so \<^const>\<open>None\<close> stands for every \<^verbatim>\<open>sensorData\<close> that is not an object.
\<close>

datatype Request =
  BadJson "string option"
| NullBody string
| JsonBody "VibrationReading list option" "SensorData option"

text \<open>
  The truthy values \<^verbatim>\<open>mlPrediction\<close> can hold. \<open>WellFormed\<close>: an object of the
  interface \<^verbatim>\<open>MLPredictionResponse\<close>. \<open>Malformed\<close>: a truthy value whose
  \<^verbatim>\<open>classification\<close> or \<^verbatim>\<open>regression\<close> is \<^verbatim>\<open>undefined\<close> or
  \<^verbatim>\<open>null\<close>, so that line 190 or line 196 throws a \<^verbatim>\<open>TypeError\<close>; the argument
  is its message. An answer that has both members but not the field types of the interface
  is outside the model (the handler copies such fields as they are).
\<close>

datatype MLAnswer =
  WellFormed MLPredictionResponse
| Malformed string

text \<open>
  What the call of the external predictor does in this run.
  \<^item> \<open>Rejected\<close>: \<^verbatim>\<open>fetch\<close> rejects (no connection, or the 10 s
    \<^verbatim>\<open>AbortSignal.timeout\<close>), with the message of the error if it is an \<^verbatim>\<open>Error\<close>.
  \<^item> \<open>NotOk\<close>: it answers with a status that is not ok; the arguments are the status
    printed in decimal and the body text, empty when \<^verbatim>\<open>text()\<close> rejects.
  \<^item> \<open>OkJson\<close>: it answers ok and \<^verbatim>\<open>json()\<close> gives a value; \<^const>\<open>None\<close> is a
    falsy one (\<^verbatim>\<open>null\<close>, \<^verbatim>\<open>false\<close>, 0 or the empty string).
  \<^item> \<open>OkNoJson\<close>: it answers ok and \<^verbatim>\<open>json()\<close> rejects.
\<close>

datatype FetchOutcome =
  Rejected "string option"
| NotOk string string
| OkJson "MLAnswer option"
| OkNoJson "string option"


text \<open>
  \<^verbatim>\<open>isLocalhostUrl\<close>; \<^verbatim>\<open>new URL(url).hostname\<close> is the parameter \<open>hostname\<close>,
  \<^const>\<open>None\<close> when the constructor throws.
\<close>

definition isLocalhostUrl :: "(string \<Rightarrow> string option) \<Rightarrow> string \<Rightarrow> bool" where
  "isLocalhostUrl hostname url =
     (case hostname url of
        Some h \<Rightarrow> h = ''localhost'' \<or> h = ''127.0.0.1''
      | None \<Rightarrow> False)"

definition canCallMlService :: "(string \<Rightarrow> string option) \<Rightarrow> string option \<Rightarrow> bool" where
  "canCallMlService hostname ML_SERVICE_URL =
     (case ML_SERVICE_URL of
        None \<Rightarrow> False
      | Some url \<Rightarrow> length url > 0 \<and> \<not> isLocalhostUrl hostname url)"

text \<open>
  \<^verbatim>\<open>a || b\<close> on optional numbers: \<^verbatim>\<open>undefined\<close>, \<^verbatim>\<open>null\<close> and 0 are falsy
  (so is NaN, which JSON does not have).
\<close>

definition truthy :: "OptNumber \<Rightarrow> bool" where
  "truthy v = (case v of Undefined \<Rightarrow> False | Null \<Rightarrow> False | Num x \<Rightarrow> x \<noteq> 0)"

definition or_js :: "OptNumber \<Rightarrow> OptNumber \<Rightarrow> OptNumber" where
  "or_js a b = (if truthy a then a else b)"

text \<open>\<^verbatim>\<open>sensorData?.field\<close>.\<close>

definition opt_field :: "(SensorData \<Rightarrow> OptNumber) \<Rightarrow> SensorData option \<Rightarrow> OptNumber" where
  "opt_field f sensorData = (case sensorData of None \<Rightarrow> Undefined | Some d \<Rightarrow> f d)"

text \<open>
  \<^verbatim>\<open>sensorData?.vibration_peak_g || sensorData?.vibrationRms || 0\<close>, on lines 69
  and 108. The last operand is a number, so the value is one.
\<close>

definition vibrationValue :: "SensorData option \<Rightarrow> real" where
  "vibrationValue sensorData =
     (case or_js (or_js (opt_field sd_vibration_peak_g sensorData)
                        (opt_field sd_vibrationRms sensorData)) (Num 0) of
        Num x \<Rightarrow> x
      | Undefined \<Rightarrow> 0
      | Null \<Rightarrow> 0)"

text \<open>The object literal passed to \<^verbatim>\<open>calculateHealthScore\<close> on lines 71 to 81.\<close>

definition handlerReading :: "SensorData option \<Rightarrow> SensorReading" where
  "handlerReading sensorData =
     \<lparr>gridVoltage = opt_field sd_gridVoltage sensorData,
      motorCurrent = opt_field sd_motorCurrent sensorData,
      power_r = opt_field sd_power sensorData,
      powerFactor = opt_field sd_powerFactor sensorData,
      gridFrequency = opt_field sd_gridFrequency sensorData,
      vibrationRms = Num (vibrationValue sensorData),
      vibrationPeakG = Undefined,
      motorSurfaceTemp = opt_field sd_motorSurfaceTemp sensorData,
      bearingTemp = opt_field sd_bearingTemp sensorData,
      ambientTemp = Undefined,
      dustDensity = opt_field sd_dustDensity sensorData\<rparr>"

text \<open>
  The placeholder classification of the branch without a usable service URL (lines 107 to
  146); \<open>nowISO\<close> is \<^verbatim>\<open>new Date().toISOString()\<close>.
\<close>

definition fallbackPrediction :: "string \<Rightarrow> SensorData option \<Rightarrow> MLPredictionResponse option" where
  "fallbackPrediction nowISO sensorData =
     (if truthy (or_js (opt_field sd_vibration_peak_g sensorData)
                       (opt_field sd_vibrationRms sensorData))
      then
        (let vibration = vibrationValue sensorData;
             (failureProbability, willFailSoon, minutesToFailure) =
               (if vibration > 0.5 then (0.85, True, 1440)
                else if vibration > 0.2 then (0.6, False, 10080)
                else (0.15, False, 43200))
         in Some \<lparr>classification =
                     \<lparr>will_fail_soon = willFailSoon,
                      failure_probability = failureProbability,
                      confidence = ''High'', threshold_minutes = 60\<rparr>,
                   regression =
                     \<lparr>minutes_to_failure = minutesToFailure,
                      hours_to_failure = of_int \<lfloor>minutesToFailure / 60\<rfloor>,
                      status_r = (if willFailSoon then ''Critical'' else ''Normal'')\<rparr>,
                   timestamp_ml = nowISO, readings_used = 1\<rparr>)
      else None)"

text \<open>
  The handler. Its parameters beside the request are what it reads from its environment:
  the URL parser, \<^verbatim>\<open>process.env.ML_SERVICE_URL\<close>, the outcome of the \<^verbatim>\<open>fetch\<close>,
  \<^verbatim>\<open>Date.now()\<close> and \<^verbatim>\<open>new Date().toISOString()\<close>. Every throw inside the
  outer \<^verbatim>\<open>try\<close> ends in the 500 response with the message of the error.
\<close>

definition POST ::
  "(string \<Rightarrow> string option) \<Rightarrow> string option \<Rightarrow> FetchOutcome \<Rightarrow> real \<Rightarrow> string
     \<Rightarrow> Request \<Rightarrow> Response" where
  "POST hostname ML_SERVICE_URL outcome now nowISO request =
     (case request of
        BadJson e \<Rightarrow> Json500 (case e of Some m \<Rightarrow> m | None \<Rightarrow> ''Unknown error'')
      | NullBody m \<Rightarrow> Json500 m
      | JsonBody vibrationReadings sensorData \<Rightarrow>
          (let healthResult = calculateHealthScore (handlerReading sensorData);
               readings =
                 (case opt_field sd_vibration_peak_g sensorData of
                    Num g \<Rightarrow> if g \<noteq> 0 then [\<lparr>vibration_rms = g, timestamp = Some now\<rparr>] else []
                  | Undefined \<Rightarrow> []
                  | Null \<Rightarrow> []);
               (mlPred, mlErr, mlStat) =
                 (if \<not> canCallMlService hostname ML_SERVICE_URL
                  then (map_option WellFormed (fallbackPrediction nowISO sensorData),
                        Some (''ML service is not configured for this deployment. ''
                          @ ''Set ML_SERVICE_URL to a public URL to enable ML predictions.''),
                        disabled)
                  else if length readings < 1
                  then (None,
                        Some ''Not enough vibration readings for ML prediction (need at least 1)'',
                        unavailable)
                  else
                    (case outcome of
                       OkJson a \<Rightarrow> (a, None, available)
                     | NotOk code errorText \<Rightarrow>
                         (None,
                          Some (if errorText \<noteq> [] then errorText
                                else ''ML service error: '' @ code),
                          unavailable)
                     | Rejected e \<Rightarrow>
                         (None,
                          Some (case e of Some m \<Rightarrow> m | None \<Rightarrow> ''ML service unavailable''),
                          unavailable)
                     | OkNoJson e \<Rightarrow>
                         (None,
                          Some (case e of Some m \<Rightarrow> m | None \<Rightarrow> ''ML service unavailable''),
                          unavailable)))
           in case mlPred of
                Some (Malformed m) \<Rightarrow> Json500 m
              | Some (WellFormed p) \<Rightarrow>
                  Json200
                    \<lparr>success = True,
                     healthScore =
                       \<lparr>score = score healthResult, category = category healthResult,
                        factors = factors healthResult\<rparr>,
                     mlPrediction =
                       Some \<lparr>classification_o = classification p, regression_o = regression p,
                             readingsUsed = readings_used p\<rparr>,
                     mlServiceStatus = mlStat,
                     mlServiceError = mlErr,
                     timestamp_o = nowISO\<rparr>
              | None \<Rightarrow>
                  Json200
                    \<lparr>success = True,
                     healthScore =
                       \<lparr>score = score healthResult, category = category healthResult,
                        factors = factors healthResult\<rparr>,
                     mlPrediction = None,
                     mlServiceStatus = mlStat,
                     mlServiceError = mlErr,
                     timestamp_o = nowISO\<rparr>))"


section \<open>Example inputs\<close>

text \<open>The snapshot of the specification's worked example; the other fields are absent.\<close>

definition example_reading :: SensorReading where
  "example_reading =
     \<lparr>gridVoltage = Num 220, motorCurrent = Num 3, power_r = Undefined,
      powerFactor = Num 0.95, gridFrequency = Num 50, vibrationRms = Num 5.0,
      vibrationPeakG = Undefined, motorSurfaceTemp = Num 90, bearingTemp = Num 50,
      ambientTemp = Undefined, dustDensity = Num 0\<rparr>"

text \<open>The same snapshot with the three fields the calculator never reads filled in.\<close>

definition example_reading_extra :: SensorReading where
  "example_reading_extra =
     \<lparr>gridVoltage = Num 220, motorCurrent = Num 3, power_r = Num 660,
      powerFactor = Num 0.95, gridFrequency = Num 50, vibrationRms = Num 5.0,
      vibrationPeakG = Num 9, motorSurfaceTemp = Num 90, bearingTemp = Num 50,
      ambientTemp = Num 31, dustDensity = Num 0\<rparr>"

definition empty_reading :: SensorReading where
  "empty_reading =
     \<lparr>gridVoltage = Undefined, motorCurrent = Undefined, power_r = Undefined,
      powerFactor = Undefined, gridFrequency = Undefined, vibrationRms = Undefined,
      vibrationPeakG = Undefined, motorSurfaceTemp = Undefined, bearingTemp = Undefined,
      ambientTemp = Undefined, dustDensity = Undefined\<rparr>"

text \<open>Every parameter scored by \<^verbatim>\<open>addFactor\<close> in its critical band.\<close>

definition critical_reading :: SensorReading where
  "critical_reading =
     \<lparr>gridVoltage = Undefined, motorCurrent = Num 10, power_r = Undefined,
      powerFactor = Num 0.5, gridFrequency = Undefined, vibrationRms = Num 10,
      vibrationPeakG = Undefined, motorSurfaceTemp = Num 100, bearingTemp = Num 100,
      ambientTemp = Undefined, dustDensity = Num 200\<rparr>"

text \<open>A snapshot whose only field is a \<^verbatim>\<open>null\<close> grid voltage, and its siblings.\<close>

definition null_voltage_reading :: SensorReading where
  "null_voltage_reading = empty_reading\<lparr>gridVoltage := Null\<rparr>"

definition null_frequency_reading :: SensorReading where
  "null_frequency_reading = empty_reading\<lparr>gridFrequency := Null\<rparr>"

definition null_vibration_reading :: SensorReading where
  "null_vibration_reading = empty_reading\<lparr>vibrationRms := Null\<rparr>"

text \<open>
  Four rules over the symptom catalog and a partial answer sheet: an OR rule and an AND
  rule over symptoms 2 and 1 (the pair of the specification's examples), an AND rule over
  symptoms 4 and 3, and a rule whose only symptom has no answer.
\<close>

definition example_rules :: "Rule list" where
  "example_rules =
     [\<lparr>rule_id = ''R1'', rule_symptoms = [2, 1], rule_operator = ''OR'', rule_level = Level_A,
       rule_damage = ''d1'', rule_solution = ''s1''\<rparr>,
      \<lparr>rule_id = ''R2'', rule_symptoms = [2, 1], rule_operator = ''AND'', rule_level = Level_C,
       rule_damage = ''d2'', rule_solution = ''s2''\<rparr>,
      \<lparr>rule_id = ''R3'', rule_symptoms = [4, 3], rule_operator = ''AND'', rule_level = Level_B,
       rule_damage = ''d3'', rule_solution = ''s3''\<rparr>,
      \<lparr>rule_id = ''R4'', rule_symptoms = [5], rule_operator = ''OR'', rule_level = Level_C,
       rule_damage = ''d4'', rule_solution = ''s4''\<rparr>]"

definition example_answers :: "nat \<rightharpoonup> UserAnswer" where
  "example_answers = [1 \<mapsto> Yes, 2 \<mapsto> No, 3 \<mapsto> Sometimes, 4 \<mapsto> Yes]"

definition example_minor :: DiagnosisResult where
  "example_minor =
     \<lparr>res_id = ''R1'', res_level = Level_A, damage = ''d1'', solution = ''s1'', cfRule = 1\<rparr>"

definition example_severe :: DiagnosisResult where
  "example_severe =
     \<lparr>res_id = ''R4'', res_level = Level_C, damage = ''d4'', solution = ''s4'', cfRule = 0.9\<rparr>"

definition example_moderate :: DiagnosisResult where
  "example_moderate =
     \<lparr>res_id = ''R3'', res_level = Level_B, damage = ''d3'', solution = ''s3'', cfRule = 0.5\<rparr>"

text \<open>
  Two sets of eight fired rules whose average weight lies midway between two one-decimal
  numbers: five Minor and three Moderate (410 / 8 = 51.25), and four Minor, one Moderate
  and three Severe (530 / 8 = 66.25).
\<close>

definition example_tie_down :: "DiagnosisResult list" where
  "example_tie_down =
     [example_minor, example_minor, example_minor, example_minor, example_minor,
      example_moderate, example_moderate, example_moderate]"

definition example_tie_up :: "DiagnosisResult list" where
  "example_tie_up =
     [example_minor, example_minor, example_minor, example_minor,
      example_moderate, example_severe, example_severe, example_severe]"

text \<open>
  A request body whose Firebase field \<^verbatim>\<open>vibration_peak_g\<close> and whose
  \<^verbatim>\<open>vibrationRms\<close> fall on different sides of the vibration limits; one without
  the Firebase field; and one whose Firebase field is \<^verbatim>\<open>null\<close>.
\<close>

definition example_sensorData :: SensorData where
  "example_sensorData =
     \<lparr>sd_gridVoltage = Undefined, sd_motorCurrent = Undefined, sd_power = Undefined,
      sd_powerFactor = Undefined, sd_gridFrequency = Undefined, sd_vibrationRms = Num 1,
      sd_motorSurfaceTemp = Undefined, sd_bearingTemp = Undefined, sd_dustDensity = Undefined,
      sd_vibration_peak_g = Num 5\<rparr>"

definition example_sensorData_rms :: SensorData where
  "example_sensorData_rms =
     \<lparr>sd_gridVoltage = Undefined, sd_motorCurrent = Undefined, sd_power = Undefined,
      sd_powerFactor = Undefined, sd_gridFrequency = Undefined, sd_vibrationRms = Num 5,
      sd_motorSurfaceTemp = Undefined, sd_bearingTemp = Undefined, sd_dustDensity = Undefined,
      sd_vibration_peak_g = Undefined\<rparr>"


text \<open>A public service URL, with the host name a URL parser gives for it.\<close>

definition example_url :: string where
  "example_url = ''https://ml.example.org''"

definition example_hostname :: "string \<Rightarrow> string option" where
  "example_hostname url = (if url = example_url then Some ''ml.example.org'' else None)"

section \<open>Health score: the running score and the factor list\<close>

lemmas call_defs =
  vibrationRms_thresholds_def vibrationRms_maxPenalty_def
  motorSurfaceTemp_thresholds_def motorSurfaceTemp_maxPenalty_def
  bearingTemp_thresholds_def bearingTemp_maxPenalty_def
  motorCurrent_thresholds_def motorCurrent_maxPenalty_def
  powerFactor_thresholds_def powerFactor_maxPenalty_def
  dustDensity_thresholds_def dustDensity_maxPenalty_def

text \<open>Each check lowers the score by an amount that does not depend on the state.\<close>

lemma addFactor_fst:
  "fst (addFactor n v th P st) = fst st + fst (addFactor n v th P (0, []))"
  by (simp add: addFactor_def Let_def split: OptNumber.splits)

lemma voltageCheck_fst:
  "fst (voltageCheck v st) = fst st + fst (voltageCheck v (0, []))"
  by (simp add: voltageCheck_def voltageBlock_def Let_def split: OptNumber.splits)

lemma frequencyCheck_fst:
  "fst (frequencyCheck v st) = fst st + fst (frequencyCheck v (0, []))"
  by (simp add: frequencyCheck_def frequencyBlock_def Let_def split: OptNumber.splits)

text \<open>Each check keeps the sum of the score and the penalties listed so far.\<close>

lemma addFactor_sum:
  "fst (addFactor n v th P st) + sum_list (map penalty (snd (addFactor n v th P st)))
     = fst st + sum_list (map penalty (snd st))"
  by (simp add: addFactor_def Let_def split: OptNumber.splits)

lemma voltageCheck_sum:
  "fst (voltageCheck v st) + sum_list (map penalty (snd (voltageCheck v st)))
     = fst st + sum_list (map penalty (snd st))"
  by (simp add: voltageCheck_def voltageBlock_def Let_def split: OptNumber.splits)

lemma frequencyCheck_sum:
  "fst (frequencyCheck v st) + sum_list (map penalty (snd (frequencyCheck v st)))
     = fst st + sum_list (map penalty (snd st))"
  by (simp add: frequencyCheck_def frequencyBlock_def Let_def split: OptNumber.splits)

lemma accumulate_sum:
  "fst (accumulate r) + sum_list (map penalty (snd (accumulate r))) = 100"
  unfolding accumulate_def
  by (simp only: addFactor_sum voltageCheck_sum frequencyCheck_sum) simp

lemma sum_list_insort_key:
  "sum_list (map g (insort_key f x xs)) = g x + sum_list (map (g :: 'a \<Rightarrow> real) xs)"
  by (induction xs) auto

lemma sum_list_sort_key:
  "sum_list (map g (sort_key f xs)) = sum_list (map (g :: 'a \<Rightarrow> real) xs)"
  by (induction xs) (auto simp: sort_key_def sum_list_insort_key)

lemma score_eq:
  "score (calculateHealthScore r) = Math_round (max 0 (min 100 (fst (accumulate r))))"
  by (simp add: calculateHealthScore_def Let_def)

lemma category_eq:
  "category (calculateHealthScore r) =
     (if max 0 (min 100 (fst (accumulate r))) \<ge> 80 then Healthy
      else if max 0 (min 100 (fst (accumulate r))) \<ge> 60 then At_Risk else Critical)"
  by (simp add: calculateHealthScore_def Let_def)

lemma factors_eq:
  "factors (calculateHealthScore r) = sort_key (\<lambda>f. - penalty f) (snd (accumulate r))"
  by (simp add: calculateHealthScore_def Let_def)

lemma set_factors:
  "set (factors (calculateHealthScore r)) = set (snd (accumulate r))"
  by (simp add: factors_eq)

lemma raw_score_factors:
  "fst (accumulate r) = 100 - sum_list (map penalty (factors (calculateHealthScore r)))"
  using accumulate_sum [of r] by (simp add: factors_eq sum_list_sort_key)

lemma Math_round_bounds:
  assumes "0 \<le> x" "x \<le> 100"
  shows "0 \<le> Math_round x \<and> Math_round x \<le> 100"
proof -
  have "(0::int) \<le> \<lfloor>x + 1 / 2\<rfloor>" using assms by (simp add: le_floor_iff)
  moreover have "\<lfloor>x + 1 / 2\<rfloor> \<le> (100::int)" using assms by (simp add: floor_le_iff)
  ultimately show ?thesis by (simp add: Math_round_def)
qed

lemma accumulate_example:
  "accumulate example_reading =
     (55, [\<lparr>parameter = ''vibrationRms'', value_f = Num 5, status = status_critical, penalty = 25\<rparr>,
           \<lparr>parameter = ''motorSurfaceTemp'', value_f = Num 90, status = status_critical,
             penalty = 20\<rparr>])"
  by (simp add: accumulate_def example_reading_def addFactor_def voltageCheck_def voltageBlock_def
      frequencyCheck_def frequencyBlock_def call_defs)

lemma accumulate_critical:
  "accumulate critical_reading =
     (- 5,
      [\<lparr>parameter = ''vibrationRms'', value_f = Num 10, status = status_critical, penalty = 25\<rparr>,
       \<lparr>parameter = ''motorSurfaceTemp'', value_f = Num 100, status = status_critical,
         penalty = 20\<rparr>,
       \<lparr>parameter = ''bearingTemp'', value_f = Num 100, status = status_critical, penalty = 20\<rparr>,
       \<lparr>parameter = ''motorCurrent'', value_f = Num 10, status = status_critical, penalty = 15\<rparr>,
       \<lparr>parameter = ''powerFactor'', value_f = Num 0.5, status = status_critical, penalty = 15\<rparr>,
       \<lparr>parameter = ''dustDensity'', value_f = Num 200, status = status_critical, penalty = 10\<rparr>])"
  by (simp add: accumulate_def critical_reading_def addFactor_def voltageCheck_def voltageBlock_def
      frequencyCheck_def frequencyBlock_def call_defs)

section \<open>Health score: the claims\<close>

text \<open>
  Claim C3. On the snapshot \<open>{vibrationRms: 5.0, motorSurfaceTemp: 90, bearingTemp: 50,
  motorCurrent: 3, powerFactor: 0.95, gridVoltage: 220, gridFrequency: 50, dustDensity: 0}\<close>
  the calculator returns the score 55, the category Critical, and exactly two factors:
  \<open>vibrationRms\<close> with penalty 25, then \<open>motorSurfaceTemp\<close> with penalty 20.
\<close>

theorem example_snapshot_result:
  "calculateHealthScore example_reading =
     \<lparr>score = 55, category = Critical,
      factors =
        [\<lparr>parameter = ''vibrationRms'', value_f = Num 5, status = status_critical, penalty = 25\<rparr>,
         \<lparr>parameter = ''motorSurfaceTemp'', value_f = Num 90, status = status_critical,
           penalty = 20\<rparr>]\<rparr>"
  by (simp add: calculateHealthScore_def accumulate_example Math_round_def sort_key_def)

text \<open>
  Claim C5. For every snapshot the returned score is an integer between 0 and 100, and
  it is 100 minus the sum of the penalties of the returned factors, clamped to the range
  from 0 to 100 and rounded to the nearest integer.
\<close>

theorem score_bounds:
  "score (calculateHealthScore r) \<in> \<int>
   \<and> 0 \<le> score (calculateHealthScore r) \<and> score (calculateHealthScore r) \<le> 100
   \<and> score (calculateHealthScore r)
       = Math_round (max 0 (min 100
           (100 - sum_list (map penalty (factors (calculateHealthScore r))))))"
proof -
  let ?x = "max 0 (min 100 (fst (accumulate r)))"
  have b: "0 \<le> ?x" "?x \<le> 100" by simp_all
  have "score (calculateHealthScore r) = Math_round ?x" by (rule score_eq)
  moreover have "Math_round ?x \<in> \<int>" by (simp add: Math_round_def)
  moreover note Math_round_bounds [OF b]
  ultimately show ?thesis using raw_score_factors [of r] by simp
qed

theorem score_bounds_witness:
  "score (calculateHealthScore critical_reading) \<in> \<int>
   \<and> 0 \<le> score (calculateHealthScore critical_reading)
   \<and> score (calculateHealthScore critical_reading) \<le> 100
   \<and> score (calculateHealthScore critical_reading) = Math_round (max 0 (min 100 (100 - 105)))"
proof -
  have s: "sum_list (map penalty (factors (calculateHealthScore critical_reading))) = 105"
    by (simp add: factors_eq sum_list_sort_key accumulate_critical)
  show ?thesis by (rule score_bounds [of critical_reading, unfolded s])
qed

text \<open>
  Claim C8, as stated, fails: the six maximal penalties passed to \<^verbatim>\<open>addFactor\<close>
  (vibration 25, motor temperature 20, bearing temperature 20, current 15, power factor
  15, dust 10) do not sum to 110.
\<close>

theorem maxPenalty_sum_not_110:
  "vibrationRms_maxPenalty + motorSurfaceTemp_maxPenalty + bearingTemp_maxPenalty
     + motorCurrent_maxPenalty + powerFactor_maxPenalty + dustDensity_maxPenalty \<noteq> 110"
  by (simp add: call_defs)

text \<open>
  Claim C8, as the code has it. The six maximal penalties sum to 105; a snapshot with
  all six parameters in their critical band is charged 105 points, and its score is
  clamped to 0.
\<close>

theorem maxPenalty_sum_105:
  "vibrationRms_maxPenalty + motorSurfaceTemp_maxPenalty + bearingTemp_maxPenalty
     + motorCurrent_maxPenalty + powerFactor_maxPenalty + dustDensity_maxPenalty = 105
   \<and> sum_list (map penalty (factors (calculateHealthScore critical_reading))) = 105
   \<and> score (calculateHealthScore critical_reading) = 0"
  by (simp add: call_defs factors_eq sum_list_sort_key score_eq accumulate_critical
      Math_round_def)

text \<open>
  Claim C10. Two snapshots that agree on the eight fields the calculator reads, and so
  differ at most in \<open>power\<close>, \<open>ambientTemp\<close> and \<open>vibrationPeakG\<close>, get the same result:
  score, category and factors.
\<close>

theorem unread_fields_no_influence:
  assumes "gridVoltage r1 = gridVoltage r2" and "motorCurrent r1 = motorCurrent r2"
    and "powerFactor r1 = powerFactor r2" and "gridFrequency r1 = gridFrequency r2"
    and "vibrationRms r1 = vibrationRms r2" and "motorSurfaceTemp r1 = motorSurfaceTemp r2"
    and "bearingTemp r1 = bearingTemp r2" and "dustDensity r1 = dustDensity r2"
  shows "calculateHealthScore r1 = calculateHealthScore r2"
  using assms by (simp add: calculateHealthScore_def accumulate_def)

theorem unread_fields_no_influence_witness:
  "power_r example_reading \<noteq> power_r example_reading_extra
   \<and> ambientTemp example_reading \<noteq> ambientTemp example_reading_extra
   \<and> vibrationPeakG example_reading \<noteq> vibrationPeakG example_reading_extra
   \<and> calculateHealthScore example_reading = calculateHealthScore example_reading_extra"
proof -
  have "calculateHealthScore example_reading = calculateHealthScore example_reading_extra"
    by (rule unread_fields_no_influence)
       (simp_all add: example_reading_def example_reading_extra_def)
  then show ?thesis by (simp add: example_reading_def example_reading_extra_def)
qed

subsection \<open>Absent parameters\<close>

text \<open>
  An \<^verbatim>\<open>undefined\<close> field is skipped by every check, and \<^verbatim>\<open>addFactor\<close> skips
  \<^verbatim>\<open>null\<close> as well; a snapshot with every scored field \<^verbatim>\<open>undefined\<close> gets
  100, Healthy and no factor.
\<close>

lemma absent_skipped:
  "addFactor n Undefined th P st = st" "addFactor n Null th P st = st"
  "voltageCheck Undefined st = st" "frequencyCheck Undefined st = st"
  by (simp_all add: addFactor_def voltageCheck_def frequencyCheck_def)

lemma all_undefined:
  assumes "gridVoltage r = Undefined" and "motorCurrent r = Undefined"
    and "powerFactor r = Undefined" and "gridFrequency r = Undefined"
    and "vibrationRms r = Undefined" and "motorSurfaceTemp r = Undefined"
    and "bearingTemp r = Undefined" and "dustDensity r = Undefined"
  shows "calculateHealthScore r = \<lparr>score = 100, category = Healthy, factors = []\<rparr>"
  using assms
  by (simp add: calculateHealthScore_def accumulate_def absent_skipped Math_round_def
      sort_key_def)

text \<open>
  Claim C7 fails where a field is \<^verbatim>\<open>null\<close>, the value a JSON body has for missing
  data. \<^verbatim>\<open>addFactor\<close> skips \<^verbatim>\<open>null\<close> (line 63), but the voltage and frequency
  blocks test \<^verbatim>\<open>!== undefined\<close> only (lines 144 and 180): a snapshot whose only
  field is a \<^verbatim>\<open>null\<close> grid voltage is charged 10 points, with a critical factor
  holding \<^verbatim>\<open>null\<close>; a \<^verbatim>\<open>null\<close> grid frequency is charged 5 points; a
  \<^verbatim>\<open>null\<close> vibration, scored by \<^verbatim>\<open>addFactor\<close>, is charged nothing.
\<close>

theorem null_voltage_charged:
  "calculateHealthScore null_voltage_reading =
     \<lparr>score = 90, category = Healthy,
      factors = [\<lparr>parameter = ''gridVoltage'', value_f = Null, status = status_critical,
                   penalty = 10\<rparr>]\<rparr>
   \<and> calculateHealthScore null_frequency_reading =
     \<lparr>score = 95, category = Healthy,
      factors = [\<lparr>parameter = ''gridFrequency'', value_f = Null, status = status_critical,
                   penalty = 5\<rparr>]\<rparr>
   \<and> calculateHealthScore null_vibration_reading =
     \<lparr>score = 100, category = Healthy, factors = []\<rparr>"
  by (simp add: calculateHealthScore_def accumulate_def null_voltage_reading_def
      null_frequency_reading_def null_vibration_reading_def empty_reading_def
      absent_skipped voltageCheck_def voltageBlock_def frequencyCheck_def frequencyBlock_def
      Math_round_def sort_key_def)

subsection \<open>The score before rounding\<close>

text \<open>
  Every deduction but the frequency warning is a multiple of 2.5, and the frequency check
  comes last: the score before the clamp is \<open>m / 2\<close> for an integer \<open>m\<close> that is 0 or 1
  modulo 5. So it is never 79.5 or 59.5, the two values at which rounding would cross a
  category limit.
\<close>

lemma addFactor_m5:
  assumes "\<exists>k::int. fst st = 5 / 2 * of_int k"
    and "\<exists>k::int. P = 5 / 2 * of_int k" and "\<exists>k::int. P * 0.5 = 5 / 2 * of_int k"
  shows "\<exists>k::int. fst (addFactor n v th P st) = 5 / 2 * of_int k"
proof -
  obtain a :: int where a: "fst st = 5 / 2 * of_int a" using assms(1) by blast
  obtain b :: int where b: "P = 5 / 2 * of_int b" using assms(2) by blast
  obtain c :: int where c: "P * 0.5 = 5 / 2 * of_int c" using assms(3) by blast
  have 1: "fst st - P = 5 / 2 * of_int (a - b)" using a b by (simp add: algebra_simps)
  have 2: "fst st - P * 0.5 = 5 / 2 * of_int (a - c)" using a c by (simp add: algebra_simps)
  have "fst (addFactor n v th P st) = fst st \<or> fst (addFactor n v th P st) = fst st - P
      \<or> fst (addFactor n v th P st) = fst st - P * 0.5"
    by (simp add: addFactor_def Let_def split: OptNumber.splits)
  then show ?thesis
  proof (elim disjE)
    assume "fst (addFactor n v th P st) = fst st"
    then have "fst (addFactor n v th P st) = 5 / 2 * of_int a" by (simp only: a)
    then show ?thesis ..
  next
    assume "fst (addFactor n v th P st) = fst st - P"
    then have "fst (addFactor n v th P st) = 5 / 2 * of_int (a - b)" by (simp only: 1)
    then show ?thesis ..
  next
    assume "fst (addFactor n v th P st) = fst st - P * 0.5"
    then have "fst (addFactor n v th P st) = 5 / 2 * of_int (a - c)" by (simp only: 2)
    then show ?thesis ..
  qed
qed

lemma voltageCheck_m5:
  assumes "\<exists>k::int. fst st = 5 / 2 * of_int k"
  shows "\<exists>k::int. fst (voltageCheck v st) = 5 / 2 * of_int k"
proof -
  obtain a :: int where a: "fst st = 5 / 2 * of_int a" using assms(1) by blast
  have 1: "fst st - 10 = 5 / 2 * of_int (a - 4)" using a by (simp add: algebra_simps)
  have 2: "fst st - 5 = 5 / 2 * of_int (a - 2)" using a by (simp add: algebra_simps)
  have "fst (voltageCheck v st) = fst st \<or> fst (voltageCheck v st) = fst st - 10
      \<or> fst (voltageCheck v st) = fst st - 5"
    by (simp add: voltageCheck_def voltageBlock_def Let_def split: OptNumber.splits)
  then show ?thesis
  proof (elim disjE)
    assume "fst (voltageCheck v st) = fst st"
    then have "fst (voltageCheck v st) = 5 / 2 * of_int a" by (simp only: a)
    then show ?thesis ..
  next
    assume "fst (voltageCheck v st) = fst st - 10"
    then have "fst (voltageCheck v st) = 5 / 2 * of_int (a - 4)" by (simp only: 1)
    then show ?thesis ..
  next
    assume "fst (voltageCheck v st) = fst st - 5"
    then have "fst (voltageCheck v st) = 5 / 2 * of_int (a - 2)" by (simp only: 2)
    then show ?thesis ..
  qed
qed

lemma frequencyCheck_m5:
  assumes "\<exists>k::int. fst st = 5 / 2 * of_int k"
  shows "\<exists>m::int. fst (frequencyCheck v st) = of_int m / 2 \<and> (m mod 5 = 0 \<or> m mod 5 = 1)"
proof -
  obtain a :: int where a: "fst st = 5 / 2 * of_int a" using assms(1) by blast
  have 0: "fst st = of_int (5 * a) / 2" using a by simp
  have 1: "fst st - 5 = of_int (5 * (a - 2)) / 2" using a by (simp add: algebra_simps)
  have 2: "fst st - 2 = of_int (5 * a - 4) / 2" using a by (simp add: algebra_simps)
  have m0: "(5 * a) mod 5 = 0" "(5 * (a - 2)) mod 5 = 0" "(5 * a - 4) mod 5 = 1"
    by presburger+
  have "fst (frequencyCheck v st) = fst st \<or> fst (frequencyCheck v st) = fst st - 5
      \<or> fst (frequencyCheck v st) = fst st - 2"
    by (simp add: frequencyCheck_def frequencyBlock_def Let_def split: OptNumber.splits)
  then show ?thesis
  proof (elim disjE)
    assume "fst (frequencyCheck v st) = fst st"
    then have "fst (frequencyCheck v st) = of_int (5 * a) / 2 \<and> ((5 * a) mod 5 = 0 \<or> (5 * a) mod 5 = 1)"
      using m0(1) by (simp only: 0) simp
    then show ?thesis ..
  next
    assume "fst (frequencyCheck v st) = fst st - 5"
    then have "fst (frequencyCheck v st) = of_int (5 * (a - 2)) / 2
       \<and> ((5 * (a - 2)) mod 5 = 0 \<or> (5 * (a - 2)) mod 5 = 1)"
      using m0(2) by (simp only: 1) simp
    then show ?thesis ..
  next
    assume "fst (frequencyCheck v st) = fst st - 2"
    then have "fst (frequencyCheck v st) = of_int (5 * a - 4) / 2
       \<and> ((5 * a - 4) mod 5 = 0 \<or> (5 * a - 4) mod 5 = 1)"
      using m0(3) by (simp only: 2) simp
    then show ?thesis ..
  qed
qed

lemma m5_100: "\<exists>k::int. fst ((100, []) :: acc) = 5 / 2 * of_int k"
  by (rule exI [of _ 40]) simp

lemma m5_vibrationRms:
  "\<exists>k::int. vibrationRms_maxPenalty = 5 / 2 * of_int k"
  "\<exists>k::int. vibrationRms_maxPenalty * 0.5 = 5 / 2 * of_int k"
  by (rule exI [of _ 10], simp add: call_defs) (rule exI [of _ 5], simp add: call_defs)

lemma m5_motorSurfaceTemp:
  "\<exists>k::int. motorSurfaceTemp_maxPenalty = 5 / 2 * of_int k"
  "\<exists>k::int. motorSurfaceTemp_maxPenalty * 0.5 = 5 / 2 * of_int k"
  by (rule exI [of _ 8], simp add: call_defs) (rule exI [of _ 4], simp add: call_defs)

lemma m5_bearingTemp:
  "\<exists>k::int. bearingTemp_maxPenalty = 5 / 2 * of_int k"
  "\<exists>k::int. bearingTemp_maxPenalty * 0.5 = 5 / 2 * of_int k"
  by (rule exI [of _ 8], simp add: call_defs) (rule exI [of _ 4], simp add: call_defs)

lemma m5_motorCurrent:
  "\<exists>k::int. motorCurrent_maxPenalty = 5 / 2 * of_int k"
  "\<exists>k::int. motorCurrent_maxPenalty * 0.5 = 5 / 2 * of_int k"
  by (rule exI [of _ 6], simp add: call_defs) (rule exI [of _ 3], simp add: call_defs)

lemma m5_powerFactor:
  "\<exists>k::int. powerFactor_maxPenalty = 5 / 2 * of_int k"
  "\<exists>k::int. powerFactor_maxPenalty * 0.5 = 5 / 2 * of_int k"
  by (rule exI [of _ 6], simp add: call_defs) (rule exI [of _ 3], simp add: call_defs)

lemma m5_dustDensity:
  "\<exists>k::int. dustDensity_maxPenalty = 5 / 2 * of_int k"
  "\<exists>k::int. dustDensity_maxPenalty * 0.5 = 5 / 2 * of_int k"
  by (rule exI [of _ 4], simp add: call_defs) (rule exI [of _ 2], simp add: call_defs)

lemma accumulate_m5:
  "\<exists>m::int. fst (accumulate r) = of_int m / 2 \<and> (m mod 5 = 0 \<or> m mod 5 = 1)"
  unfolding accumulate_def
  apply (rule frequencyCheck_m5)
  apply (rule addFactor_m5 [OF _ m5_dustDensity])
  apply (rule voltageCheck_m5)
  apply (rule addFactor_m5 [OF _ m5_powerFactor])
  apply (rule addFactor_m5 [OF _ m5_motorCurrent])
  apply (rule addFactor_m5 [OF _ m5_bearingTemp])
  apply (rule addFactor_m5 [OF _ m5_motorSurfaceTemp])
  apply (rule addFactor_m5 [OF _ m5_vibrationRms])
  apply (rule m5_100)
  done

lemma Math_round_half: "Math_round (of_int m / 2) = of_int ((m + 1) div 2)"
proof -
  have "(of_int m / 2 + 1 / 2 :: real) = of_int (m + 1) / of_int 2" by (simp add: add_divide_distrib)
  then have "\<lfloor>of_int m / 2 + 1 / 2 :: real\<rfloor> = (m + 1) div 2"
    by (simp only: floor_divide_of_int_eq)
  then show ?thesis by (simp add: Math_round_def)
qed

lemma clamp_half:
  "max 0 (min 100 (of_int m / 2 :: real)) = of_int (max 0 (min 200 m)) / 2"
  by (simp add: max_def min_def)

lemma half_ge_80: "(of_int c / 2 :: real) \<ge> 80 \<longleftrightarrow> c \<ge> 160"
proof -
  have "(of_int c / 2 :: real) \<ge> 80 \<longleftrightarrow> (of_int c :: real) \<ge> of_int 160" by simp
  then show ?thesis by (simp only: of_int_le_iff)
qed

lemma half_ge_60: "(of_int c / 2 :: real) \<ge> 60 \<longleftrightarrow> c \<ge> 120"
proof -
  have "(of_int c / 2 :: real) \<ge> 60 \<longleftrightarrow> (of_int c :: real) \<ge> of_int 120" by simp
  then show ?thesis by (simp only: of_int_le_iff)
qed

lemma int_ge_80: "(of_int k :: real) \<ge> 80 \<longleftrightarrow> k \<ge> 80"
proof -
  have "(of_int k :: real) \<ge> 80 \<longleftrightarrow> (of_int k :: real) \<ge> of_int 80" by simp
  then show ?thesis by (simp only: of_int_le_iff)
qed

lemma int_ge_60: "(of_int k :: real) \<ge> 60 \<longleftrightarrow> k \<ge> 60"
proof -
  have "(of_int k :: real) \<ge> 60 \<longleftrightarrow> (of_int k :: real) \<ge> of_int 60" by simp
  then show ?thesis by (simp only: of_int_le_iff)
qed

lemma half_up_ge: "((c::int) + 1) div 2 \<ge> k \<longleftrightarrow> c \<ge> 2 * k - 1"
  by linarith

lemma round_80:
  assumes "c mod 5 = 0 \<or> c mod 5 = 1"
  shows "((c::int) + 1) div 2 \<ge> 80 \<longleftrightarrow> c \<ge> 160"
proof -
  have "c \<noteq> 159" using assms by auto
  moreover have "(c + 1) div 2 \<ge> 80 \<longleftrightarrow> c \<ge> 159" by (simp only: half_up_ge) simp
  ultimately show ?thesis by linarith
qed

lemma round_60:
  assumes "c mod 5 = 0 \<or> c mod 5 = 1"
  shows "((c::int) + 1) div 2 \<ge> 60 \<longleftrightarrow> c \<ge> 120"
proof -
  have "c \<noteq> 119" using assms by auto
  moreover have "(c + 1) div 2 \<ge> 60 \<longleftrightarrow> c \<ge> 119" by (simp only: half_up_ge) simp
  ultimately show ?thesis by linarith
qed

text \<open>
  Claim C4. For every snapshot the returned (rounded) score and the category agree:
  the score is at least 80 exactly for Healthy, from 60 to below 80 exactly for At Risk,
  and below 60 exactly for Critical. The category is decided before the score is rounded;
  the two agree because the unrounded score is never 79.5 or 59.5.
\<close>

theorem category_consistent:
  "(score (calculateHealthScore r) \<ge> 80 \<longleftrightarrow> category (calculateHealthScore r) = Healthy)
 \<and> (60 \<le> score (calculateHealthScore r) \<and> score (calculateHealthScore r) < 80
       \<longleftrightarrow> category (calculateHealthScore r) = At_Risk)
 \<and> (score (calculateHealthScore r) < 60 \<longleftrightarrow> category (calculateHealthScore r) = Critical)"
proof -
  obtain m :: int where m: "fst (accumulate r) = of_int m / 2" and m5: "m mod 5 = 0 \<or> m mod 5 = 1"
    using accumulate_m5 [of r] by (elim exE conjE)
  define c where "c = max 0 (min 200 m)"
  have c_cases: "c = 0 \<or> c = 200 \<or> c = m" by (simp add: c_def max_def min_def)
  have c5: "c mod 5 = 0 \<or> c mod 5 = 1" using m5 c_cases by (elim disjE) simp_all
  have sc: "max 0 (min 100 (fst (accumulate r))) = of_int c / 2"
    by (simp only: m clamp_half c_def)
  have s: "score (calculateHealthScore r) = of_int ((c + 1) div 2)"
    by (simp only: score_eq sc Math_round_half)
  have cat: "category (calculateHealthScore r) =
     (if c \<ge> 160 then Healthy else if c \<ge> 120 then At_Risk else Critical)"
    by (simp only: category_eq sc half_ge_80 half_ge_60)
  have r80: "(c + 1) div 2 \<ge> 80 \<longleftrightarrow> c \<ge> 160" using c5 by (rule round_80)
  have r60: "(c + 1) div 2 \<ge> 60 \<longleftrightarrow> c \<ge> 120" using c5 by (rule round_60)
  have s80: "score (calculateHealthScore r) \<ge> 80 \<longleftrightarrow> c \<ge> 160"
    by (simp only: s int_ge_80 r80)
  have s60: "score (calculateHealthScore r) \<ge> 60 \<longleftrightarrow> c \<ge> 120"
    by (simp only: s int_ge_60 r60)
  have l80: "score (calculateHealthScore r) < 80 \<longleftrightarrow> c < 160"
    using s80 by linarith
  have l60: "score (calculateHealthScore r) < 60 \<longleftrightarrow> c < 120"
    using s60 by linarith
  have c1: "score (calculateHealthScore r) \<ge> 80 \<longleftrightarrow> category (calculateHealthScore r) = Healthy"
    by (simp only: s80 cat) simp
  have c2: "60 \<le> score (calculateHealthScore r) \<and> score (calculateHealthScore r) < 80
       \<longleftrightarrow> category (calculateHealthScore r) = At_Risk"
    by (simp only: s60 l80 cat) simp
  have c3: "score (calculateHealthScore r) < 60 \<longleftrightarrow> category (calculateHealthScore r) = Critical"
    by (simp only: l60 cat) simp
  show ?thesis using c1 c2 c3 by blast
qed

theorem category_consistent_witness:
  "score (calculateHealthScore example_reading) < 60
   \<and> category (calculateHealthScore example_reading) = Critical"
proof -
  have "score (calculateHealthScore example_reading) = 55"
    by (simp add: score_eq accumulate_example Math_round_def)
  then show ?thesis using category_consistent [of example_reading] by simp
qed

subsection \<open>Monotonicity\<close>

lemma accumulate_fst:
  "fst (accumulate r) =
     100
     + fst (addFactor ''vibrationRms'' (vibrationRms r)
          vibrationRms_thresholds vibrationRms_maxPenalty (0, []))
     + fst (addFactor ''motorSurfaceTemp'' (motorSurfaceTemp r)
          motorSurfaceTemp_thresholds motorSurfaceTemp_maxPenalty (0, []))
     + fst (addFactor ''bearingTemp'' (bearingTemp r)
          bearingTemp_thresholds bearingTemp_maxPenalty (0, []))
     + fst (addFactor ''motorCurrent'' (motorCurrent r)
          motorCurrent_thresholds motorCurrent_maxPenalty (0, []))
     + fst (addFactor ''powerFactor'' (powerFactor r)
          powerFactor_thresholds powerFactor_maxPenalty (0, []))
     + fst (voltageCheck (gridVoltage r) (0, []))
     + fst (addFactor ''dustDensity'' (dustDensity r)
          dustDensity_thresholds dustDensity_maxPenalty (0, []))
     + fst (frequencyCheck (gridFrequency r) (0, []))"
proof -
  let ?s0 = "(100, []) :: acc"
  let ?s1 = "addFactor ''vibrationRms'' (vibrationRms r)
          vibrationRms_thresholds vibrationRms_maxPenalty ?s0"
  let ?s2 = "addFactor ''motorSurfaceTemp'' (motorSurfaceTemp r)
          motorSurfaceTemp_thresholds motorSurfaceTemp_maxPenalty ?s1"
  let ?s3 = "addFactor ''bearingTemp'' (bearingTemp r)
          bearingTemp_thresholds bearingTemp_maxPenalty ?s2"
  let ?s4 = "addFactor ''motorCurrent'' (motorCurrent r)
          motorCurrent_thresholds motorCurrent_maxPenalty ?s3"
  let ?s5 = "addFactor ''powerFactor'' (powerFactor r)
          powerFactor_thresholds powerFactor_maxPenalty ?s4"
  let ?s6 = "voltageCheck (gridVoltage r) ?s5"
  let ?s7 = "addFactor ''dustDensity'' (dustDensity r)
          dustDensity_thresholds dustDensity_maxPenalty ?s6"
  have e: "accumulate r = frequencyCheck (gridFrequency r) ?s7" by (simp only: accumulate_def)
  note frequencyCheck_fst [of "gridFrequency r" ?s7]
    addFactor_fst [of "''dustDensity''" "dustDensity r"
      dustDensity_thresholds dustDensity_maxPenalty ?s6]
    voltageCheck_fst [of "gridVoltage r" ?s5]
    addFactor_fst [of "''powerFactor''" "powerFactor r"
      powerFactor_thresholds powerFactor_maxPenalty ?s4]
    addFactor_fst [of "''motorCurrent''" "motorCurrent r"
      motorCurrent_thresholds motorCurrent_maxPenalty ?s3]
    addFactor_fst [of "''bearingTemp''" "bearingTemp r"
      bearingTemp_thresholds bearingTemp_maxPenalty ?s2]
    addFactor_fst [of "''motorSurfaceTemp''" "motorSurfaceTemp r"
      motorSurfaceTemp_thresholds motorSurfaceTemp_maxPenalty ?s1]
    addFactor_fst [of "''vibrationRms''" "vibrationRms r"
      vibrationRms_thresholds vibrationRms_maxPenalty ?s0]
  then show ?thesis unfolding e by (simp only: fst_conv)
qed

lemma addFactor_mono:
  assumes "\<not> isLower th" "warning th \<le> critical th" "0 \<le> P" "v \<le> v'"
  shows "fst (addFactor n (Num v') th P (0, [])) \<le> fst (addFactor n (Num v) th P (0, []))"
  using assms by (simp add: addFactor_def)

lemma addFactor_mono_lower:
  assumes "isLower th" "critical th \<le> warning th" "0 \<le> P" "v \<le> v'"
  shows "fst (addFactor n (Num v) th P (0, [])) \<le> fst (addFactor n (Num v') th P (0, []))"
  using assms by (simp add: addFactor_def)

lemma score_mono:
  assumes "fst (accumulate r1) \<le> fst (accumulate r2)"
  shows "score (calculateHealthScore r1) \<le> score (calculateHealthScore r2)"
proof -
  have "max 0 (min 100 (fst (accumulate r1))) \<le> max 0 (min 100 (fst (accumulate r2)))"
    using assms by (simp add: max_def min_def)
  then have "\<lfloor>max 0 (min 100 (fst (accumulate r1))) + 1 / 2\<rfloor>
      \<le> \<lfloor>max 0 (min 100 (fst (accumulate r2))) + 1 / 2\<rfloor>"
    by (intro floor_mono add_right_mono)
  then show ?thesis by (simp only: score_eq Math_round_def of_int_le_iff)
qed

text \<open>
  Claim C6. With the other fields fixed, raising the value of \<open>vibrationRms\<close>,
  \<open>motorSurfaceTemp\<close>, \<open>bearingTemp\<close>, \<open>motorCurrent\<close> or \<open>dustDensity\<close> never raises
  the returned score, and raising \<open>powerFactor\<close> never lowers it.
\<close>

theorem score_monotone:
  assumes "v \<le> v'"
  shows "score (calculateHealthScore (r\<lparr>vibrationRms := Num v'\<rparr>))
           \<le> score (calculateHealthScore (r\<lparr>vibrationRms := Num v\<rparr>))
       \<and> score (calculateHealthScore (r\<lparr>motorSurfaceTemp := Num v'\<rparr>))
           \<le> score (calculateHealthScore (r\<lparr>motorSurfaceTemp := Num v\<rparr>))
       \<and> score (calculateHealthScore (r\<lparr>bearingTemp := Num v'\<rparr>))
           \<le> score (calculateHealthScore (r\<lparr>bearingTemp := Num v\<rparr>))
       \<and> score (calculateHealthScore (r\<lparr>motorCurrent := Num v'\<rparr>))
           \<le> score (calculateHealthScore (r\<lparr>motorCurrent := Num v\<rparr>))
       \<and> score (calculateHealthScore (r\<lparr>dustDensity := Num v'\<rparr>))
           \<le> score (calculateHealthScore (r\<lparr>dustDensity := Num v\<rparr>))
       \<and> score (calculateHealthScore (r\<lparr>powerFactor := Num v\<rparr>))
           \<le> score (calculateHealthScore (r\<lparr>powerFactor := Num v'\<rparr>))"
proof -
  note m1 = addFactor_mono [OF _ _ _ assms,
      of vibrationRms_thresholds vibrationRms_maxPenalty "''vibrationRms''"]
  have c1: "score (calculateHealthScore (r\<lparr>vibrationRms := Num v'\<rparr>))
           \<le> score (calculateHealthScore (r\<lparr>vibrationRms := Num v\<rparr>))"
    by (rule score_mono) (use m1 in \<open>simp add: accumulate_fst call_defs\<close>)
  note m2 = addFactor_mono [OF _ _ _ assms,
      of motorSurfaceTemp_thresholds motorSurfaceTemp_maxPenalty "''motorSurfaceTemp''"]
  have c2: "score (calculateHealthScore (r\<lparr>motorSurfaceTemp := Num v'\<rparr>))
           \<le> score (calculateHealthScore (r\<lparr>motorSurfaceTemp := Num v\<rparr>))"
    by (rule score_mono) (use m2 in \<open>simp add: accumulate_fst call_defs\<close>)
  note m3 = addFactor_mono [OF _ _ _ assms,
      of bearingTemp_thresholds bearingTemp_maxPenalty "''bearingTemp''"]
  have c3: "score (calculateHealthScore (r\<lparr>bearingTemp := Num v'\<rparr>))
           \<le> score (calculateHealthScore (r\<lparr>bearingTemp := Num v\<rparr>))"
    by (rule score_mono) (use m3 in \<open>simp add: accumulate_fst call_defs\<close>)
  note m4 = addFactor_mono [OF _ _ _ assms,
      of motorCurrent_thresholds motorCurrent_maxPenalty "''motorCurrent''"]
  have c4: "score (calculateHealthScore (r\<lparr>motorCurrent := Num v'\<rparr>))
           \<le> score (calculateHealthScore (r\<lparr>motorCurrent := Num v\<rparr>))"
    by (rule score_mono) (use m4 in \<open>simp add: accumulate_fst call_defs\<close>)
  note m5 = addFactor_mono [OF _ _ _ assms,
      of dustDensity_thresholds dustDensity_maxPenalty "''dustDensity''"]
  have c5: "score (calculateHealthScore (r\<lparr>dustDensity := Num v'\<rparr>))
           \<le> score (calculateHealthScore (r\<lparr>dustDensity := Num v\<rparr>))"
    by (rule score_mono) (use m5 in \<open>simp add: accumulate_fst call_defs\<close>)
  note m6 = addFactor_mono_lower [OF _ _ _ assms,
      of powerFactor_thresholds powerFactor_maxPenalty "''powerFactor''"]
  have c6: "score (calculateHealthScore (r\<lparr>powerFactor := Num v\<rparr>))
           \<le> score (calculateHealthScore (r\<lparr>powerFactor := Num v'\<rparr>))"
    by (rule score_mono) (use m6 in \<open>simp add: accumulate_fst call_defs\<close>)
  from c1 c2 c3 c4 c5 c6 show ?thesis by (intro conjI)
qed

lemma empty_vibration:
  "score (calculateHealthScore (empty_reading\<lparr>vibrationRms := Num x\<rparr>))
     = (if x > 4.5 then 75 else if x > 2.8 then 88 else 100)"
  by (simp add: score_eq accumulate_def empty_reading_def addFactor_def voltageCheck_def voltageBlock_def
      frequencyCheck_def frequencyBlock_def call_defs Math_round_def)

lemma empty_powerFactor:
  "score (calculateHealthScore (empty_reading\<lparr>powerFactor := Num x\<rparr>))
     = (if x < 0.70 then 85 else if x < 0.85 then 93 else 100)"
  by (simp add: score_eq accumulate_def empty_reading_def addFactor_def voltageCheck_def voltageBlock_def
      frequencyCheck_def frequencyBlock_def call_defs Math_round_def)

theorem score_monotone_witness:
  "(0.5::real) \<le> 5
   \<and> score (calculateHealthScore (empty_reading\<lparr>vibrationRms := Num 5\<rparr>)) = 75
   \<and> score (calculateHealthScore (empty_reading\<lparr>vibrationRms := Num 0.5\<rparr>)) = 100
   \<and> score (calculateHealthScore (empty_reading\<lparr>vibrationRms := Num 5\<rparr>))
       \<le> score (calculateHealthScore (empty_reading\<lparr>vibrationRms := Num 0.5\<rparr>))
   \<and> score (calculateHealthScore (empty_reading\<lparr>powerFactor := Num 0.5\<rparr>)) = 85
   \<and> score (calculateHealthScore (empty_reading\<lparr>powerFactor := Num 5\<rparr>)) = 100
   \<and> score (calculateHealthScore (empty_reading\<lparr>powerFactor := Num 0.5\<rparr>))
       \<le> score (calculateHealthScore (empty_reading\<lparr>powerFactor := Num 5\<rparr>))"
proof -
  have h: "(0.5::real) \<le> 5" by simp
  note m = score_monotone [OF h, of empty_reading]
  have a: "score (calculateHealthScore (empty_reading\<lparr>vibrationRms := Num 5\<rparr>))
       \<le> score (calculateHealthScore (empty_reading\<lparr>vibrationRms := Num 0.5\<rparr>))"
    using m by (rule conjunct1)
  have b: "score (calculateHealthScore (empty_reading\<lparr>powerFactor := Num 0.5\<rparr>))
       \<le> score (calculateHealthScore (empty_reading\<lparr>powerFactor := Num 5\<rparr>))"
    using m by blast
  have c: "score (calculateHealthScore (empty_reading\<lparr>vibrationRms := Num 5\<rparr>)) = 75"
    "score (calculateHealthScore (empty_reading\<lparr>vibrationRms := Num 0.5\<rparr>)) = 100"
    by (simp_all add: empty_vibration)
  have d: "score (calculateHealthScore (empty_reading\<lparr>powerFactor := Num 0.5\<rparr>)) = 85"
    "score (calculateHealthScore (empty_reading\<lparr>powerFactor := Num 5\<rparr>)) = 100"
    by (simp_all add: empty_powerFactor)
  from h a b c d show ?thesis by (intro conjI)
qed

section \<open>Binary64 rounding\<close>

text \<open>
  \<open>rne\<close> is within one half of its argument and \<open>fl\<close> within half a unit in the last
  place; a natural number below \<open>2\<^sup>5\<^sup>3\<close> is a binary64 value. Inside a given binade
  \<open>fl\<close> is one \<open>rne\<close> of a scaled argument (\<open>fl_small\<close> below 1, \<open>fl_big\<close> from 1
  on), which is how it is evaluated on a concrete number.
\<close>

lemma rne_error: "\<bar>of_int (rne z) - z\<bar> \<le> 1 / 2"
proof -
  have "of_int \<lfloor>z\<rfloor> \<le> z" "z < of_int \<lfloor>z\<rfloor> + 1" by linarith+
  then show ?thesis by (auto simp: rne_def Let_def)
qed

lemma rne_of_int [simp]: "rne (of_int m) = m"
  by (simp add: rne_def)

lemma fl_binade:
  assumes "0 < x" and "2 powr (of_int e) \<le> x" and "x < 2 powr (of_int e + 1)"
  shows "fl x = of_int (rne (x / 2 powr (of_int e - 52))) * 2 powr (of_int e - 52)"
proof -
  have "\<lfloor>log 2 x\<rfloor> = e" using assms by (simp add: floor_log_eq_powr_iff)
  then show ?thesis using assms(1) by (simp add: fl_def Let_def)
qed

lemma fl_error_binade:
  assumes "0 < x" and "2 powr (of_int e) \<le> x" and "x < 2 powr (of_int e + 1)"
  shows "\<bar>fl x - x\<bar> \<le> 2 powr (of_int e - 53)"
proof -
  let ?u = "2 powr (of_int e - 52) :: real"
  have u: "0 < ?u" by simp
  have "\<bar>of_int (rne (x / ?u)) - x / ?u\<bar> \<le> 1 / 2" by (rule rne_error)
  then have "\<bar>of_int (rne (x / ?u)) - x / ?u\<bar> * ?u \<le> 1 / 2 * ?u"
    using u by (intro mult_right_mono) simp_all
  moreover have "\<bar>of_int (rne (x / ?u)) - x / ?u\<bar> * ?u = \<bar>of_int (rne (x / ?u)) * ?u - x\<bar>"
  proof -
    have "(of_int (rne (x / ?u)) - x / ?u) * ?u = of_int (rne (x / ?u)) * ?u - x"
      using u by (simp add: left_diff_distrib)
    then have "\<bar>of_int (rne (x / ?u)) * ?u - x\<bar> = \<bar>(of_int (rne (x / ?u)) - x / ?u) * ?u\<bar>"
      by (simp only:)
    also have "\<dots> = \<bar>of_int (rne (x / ?u)) - x / ?u\<bar> * \<bar>?u\<bar>" by (rule abs_mult)
    also have "\<bar>?u\<bar> = ?u" by simp
    finally show ?thesis by (simp only:)
  qed
  moreover have "1 / 2 * ?u = 2 powr (of_int e - 53)"
  proof -
    have "(2::real) powr (of_int e - 52) = 2 powr ((of_int e - 53) + 1)" by simp
    also have "\<dots> = 2 powr (of_int e - 53) * 2 powr 1" by (rule powr_add)
    finally show ?thesis by simp
  qed
  ultimately show ?thesis by (simp add: fl_binade [OF assms])
qed

lemma binade_exists:
  assumes "0 < x"
  shows "2 powr (of_int \<lfloor>log 2 x\<rfloor>) \<le> x \<and> x < 2 powr (of_int \<lfloor>log 2 x\<rfloor> + 1)"
  using floor_log_eq_powr_iff [of x 2 "\<lfloor>log 2 x\<rfloor>"] assms by simp

text \<open>The rounding error of a positive number below \<open>2\<^sup>k\<close> is at most \<open>2\<^sup>k\<^sup>-\<^sup>5\<^sup>4\<close>.\<close>

lemma fl_error:
  assumes "0 < x" and "x < 2 ^ k"
  shows "\<bar>fl x - x\<bar> \<le> 2 ^ k / 2 ^ 54"
proof -
  define e where "e = \<lfloor>log 2 x\<rfloor>"
  have b: "2 powr (of_int e) \<le> x" "x < 2 powr (of_int e + 1)"
    using binade_exists [OF assms(1)] by (simp_all add: e_def)
  have "2 powr (of_int e) < 2 powr (real k)"
    using b(1) assms(2) by (simp add: powr_realpow)
  then have "of_int e < real k" by simp
  then have "e + 1 \<le> int k" by linarith
  then have le: "(of_int e :: real) - 53 \<le> real k - 54" by linarith
  have "\<bar>fl x - x\<bar> \<le> 2 powr (of_int e - 53)" by (rule fl_error_binade [OF assms(1) b])
  also have "\<dots> \<le> 2 powr (real k - 54)" using le by simp
  also have "\<dots> = 2 ^ k / 2 ^ 54"
    by (simp add: powr_diff powr_realpow)
  finally show ?thesis .
qed

lemma fl_nat:
  assumes "n < 2 ^ 53"
  shows "fl (real n) = real n"
proof (cases "n = 0")
  case True
  then show ?thesis by (simp add: fl_def)
next
  case False
  then have pos: "0 < real n" by simp
  define e where "e = \<lfloor>log 2 (real n)\<rfloor>"
  have b: "2 powr (of_int e) \<le> real n" "real n < 2 powr (of_int e + 1)"
    using binade_exists [OF pos] by (simp_all add: e_def)
  have "real n < real (2 ^ 53)" using assms by (simp only: of_nat_less_iff)
  also have "real (2 ^ 53) = 2 powr (real 53)" by (simp only: powr_realpow) simp
  finally have "2 powr (of_int e) < 2 powr (real 53)" using b(1) by linarith
  then have "of_int e < real 53" by (simp only: powr_less_cancel_iff) 
  then have e53: "e < 53" by linarith
  define m where "m = nat (52 - e)"
  have m: "of_int e - 52 = - real m" using e53 by (simp add: m_def)
  have "(2::real) powr (of_int e - 52) = inverse (2 powr (real m))"
    by (simp only: m powr_minus)
  also have "\<dots> = inverse (2 ^ m)" by (simp add: powr_realpow)
  finally have u: "(2::real) powr (of_int e - 52) = inverse (2 ^ m)" .
  have "real n / inverse (2 ^ m) = of_int (int (n * 2 ^ m))" by (simp add: divide_inverse)
  then have r: "rne (real n / inverse (2 ^ m)) = int (n * 2 ^ m)" by (simp only: rne_of_int)
  have "fl (real n) = of_int (int (n * 2 ^ m)) * inverse (2 ^ m)"
    by (simp only: fl_binade [OF pos b] u r)
  also have "\<dots> = real n" by (simp add: field_simps)
  finally show ?thesis .
qed

lemma fl_small:
  assumes "1 \<le> x * 2 ^ k" and "x * 2 ^ k < 2"
  shows "fl x = of_int (rne (x * 2 ^ (k + 52))) / 2 ^ (k + 52)"
proof -
  have p: "(2::real) powr (of_int (- int k)) = inverse (2 ^ k)"
    by (simp add: powr_minus powr_realpow)
  have x: "0 < x"
  proof (rule ccontr)
    assume "\<not> 0 < x"
    then have "x * 2 ^ k \<le> 0" by (simp add: mult_le_0_iff)
    with assms(1) show False by simp
  qed
  have a: "2 powr (of_int (- int k)) \<le> x"
    using assms(1) by (simp only: p) (simp add: field_simps)
  have "(2::real) powr (of_int (- int k) + 1) = 2 powr (of_int (- int k)) * 2 powr 1"
    by (rule powr_add)
  also have "\<dots> = inverse (2 ^ k) * 2" by (simp only: p) simp
  finally have "(2::real) powr (of_int (- int k) + 1) = inverse (2 ^ k) * 2" .
  moreover have "x < inverse (2 ^ k) * 2" using assms(2) by (simp add: field_simps)
  ultimately have b: "x < 2 powr (of_int (- int k) + 1)" by (simp only:)
  have "(2::real) powr (of_int (- int k) - 52) = 2 powr (- real (k + 52))" by simp
  also have "\<dots> = inverse (2 ^ (k + 52))" by (simp only: powr_minus powr_realpow)
  finally have u: "(2::real) powr (of_int (- int k) - 52) = inverse (2 ^ (k + 52))" .
  show ?thesis by (simp only: fl_binade [OF x a b] u) (simp add: divide_inverse)
qed

lemma fl_big:
  assumes "2 ^ k \<le> x" and "x < 2 ^ (k + 1)" and "k \<le> 52"
  shows "fl x = of_int (rne (x * 2 ^ (52 - k))) / 2 ^ (52 - k)"
proof -
  have "(0::real) < 2 ^ k" by simp
  with assms(1) have x: "0 < x" by linarith
  have a: "2 powr (of_int (int k)) \<le> x" using assms(1) by (simp add: powr_realpow)
  have "(2::real) powr (of_int (int k) + 1) = 2 powr (real (k + 1))" by (simp add: add.commute)
  also have "\<dots> = 2 ^ (k + 1)" by (simp only: powr_realpow)
  finally have b: "x < 2 powr (of_int (int k) + 1)" using assms(2) by simp
  have "(2::real) powr (of_int (int k) - 52) = 2 powr (- real (52 - k))"
    using assms(3) by (simp add: of_nat_diff)
  also have "\<dots> = inverse (2 ^ (52 - k))" by (simp only: powr_minus powr_realpow)
  finally have u: "(2::real) powr (of_int (int k) - 52) = inverse (2 ^ (52 - k))" .
  show ?thesis by (simp only: fl_binade [OF x a b] u) (simp add: divide_inverse)
qed

lemma fl_two_fifths: "fl (2 / 5) = 7205759403792794 / 2 ^ 54"
  by (simp add: fl_small [of "2 / 5" 2] rne_def)

lemma fl_40: "fl (fl (2 / 5) * 100) = 40"
proof -
  let ?y = "7205759403792794 / 2 ^ 54 * 100 :: real"
  have "fl ?y = of_int (rne (?y * 2 ^ (52 - 5))) / 2 ^ (52 - 5)"
    by (rule fl_big) simp_all
  also have "\<dots> = 40" by (simp add: rne_def)
  finally show ?thesis by (simp only: fl_two_fifths)
qed

lemma fl_seven_tenths: "fl (7 / 10) = 6305039478318694 / 2 ^ 53"
  by (simp add: fl_small [of "7 / 10" 1] rne_def)

lemma fl_70: "fl (fl (7 / 10) * 100) = 70"
proof -
  let ?y = "6305039478318694 / 2 ^ 53 * 100 :: real"
  have "fl ?y = of_int (rne (?y * 2 ^ (52 - 6))) / 2 ^ (52 - 6)"
    by (rule fl_big) simp_all
  also have "\<dots> = 70" by (simp add: rne_def)
  finally show ?thesis by (simp only: fl_seven_tenths)
qed

lemma fl_41_80: "fl (41 / 80) = 4616189618054758 / 2 ^ 53"
  by (simp add: fl_small [of "41 / 80" 1] rne_def)

lemma fl_5125: "fl (fl (41 / 80) * 100) = 7212796278210559 / 2 ^ 47"
proof -
  let ?y = "4616189618054758 / 2 ^ 53 * 100 :: real"
  have "fl ?y = of_int (rne (?y * 2 ^ (52 - 5))) / 2 ^ (52 - 5)"
    by (rule fl_big) simp_all
  also have "\<dots> = 7212796278210559 / 2 ^ 47" by (simp add: rne_def)
  finally show ?thesis by (simp only: fl_41_80)
qed

subsection \<open>The percent of \<^verbatim>\<open>calculateConclusion\<close>\<close>

text \<open>
  For a total \<open>Sn\<close> of \<open>n\<close> weights between 40 and 100, the computed
  \<^verbatim>\<open>(totalScore / (data.length * 100)) * 100\<close> is within \<open>2\<^sup>-\<^sup>4\<^sup>5\<close> of \<open>Sn / n\<close>,
  it is exactly 40 or 70 when \<open>Sn / n\<close> is, and so it compares with 40 and with 70 as
  \<open>Sn / n\<close> does.
\<close>

lemma two_step_error:
  fixes a b x :: real
  assumes "\<bar>a - x\<bar> \<le> 2 / 2 ^ 54" "\<bar>b - a * 100\<bar> \<le> 2 ^ 7 / 2 ^ 54"
  shows "\<bar>b - 100 * x\<bar> \<le> 1 / 2 ^ 45"
proof -
  have 1: "a - x \<le> 2 / 2 ^ 54" "x - a \<le> 2 / 2 ^ 54" using assms(1) by linarith+
  have 2: "b - a * 100 \<le> 2 ^ 7 / 2 ^ 54" "a * 100 - b \<le> 2 ^ 7 / 2 ^ 54"
    using assms(2) by linarith+
  have "b - 100 * x \<le> 1 / 2 ^ 45" using 1 2 by simp
  moreover have "100 * x - b \<le> 1 / 2 ^ 45" using 1 2 by simp
  ultimately show ?thesis by linarith
qed

lemma percent_double:
  fixes Sn n :: nat
  assumes n: "0 < n" "n < 2 ^ 32" and lo: "40 * n \<le> Sn" and hi: "Sn \<le> 100 * n"
  shows "\<bar>fl (fl (real Sn / fl (real n * 100)) * 100) - real Sn / real n\<bar> \<le> 1 / 2 ^ 45"
proof -
  have "n * 100 < 2 ^ 53" using n(2) by simp
  then have "fl (real (n * 100)) = real (n * 100)" by (rule fl_nat)
  then have den: "fl (real n * 100) = real n * 100" by simp
  define x where "x = real Sn / (real n * 100)"
  have rn: "0 < real n" using n(1) by simp
  have "real (40 * n) \<le> real Sn" using lo by (simp only: of_nat_le_iff)
  then have xlo: "2 / 5 \<le> x" using rn by (simp add: x_def field_simps)
  have "real Sn \<le> real (100 * n)" using hi by (simp only: of_nat_le_iff)
  then have xhi: "x \<le> 1" using rn by (simp add: x_def field_simps)
  have x0: "0 < x" using xlo by linarith
  have "x < 2 ^ 1" using xhi by simp
  from fl_error [OF x0 this] have ex: "\<bar>fl x - x\<bar> \<le> 2 / 2 ^ 54" by simp
  define q where "q = fl x"
  have ql: "2 / 5 - 2 / 2 ^ 54 \<le> q" and qh: "q \<le> 1 + 2 / 2 ^ 54"
    using ex xlo xhi unfolding q_def by linarith+
  have y0: "0 < q * 100" using ql by simp
  have "q * 100 < 2 ^ 7" using qh by simp
  from fl_error [OF y0 this] have ey: "\<bar>fl (q * 100) - q * 100\<bar> \<le> 2 ^ 7 / 2 ^ 54" .
  have "100 * x = real Sn / real n" using rn by (simp add: x_def)
  moreover have "\<bar>fl (q * 100) - 100 * x\<bar> \<le> 1 / 2 ^ 45"
    using ex ey unfolding q_def by (rule two_step_error)
  ultimately show ?thesis by (simp add: den q_def x_def)
qed

lemma percent_exact:
  fixes n :: nat
  assumes "0 < n" "n < 2 ^ 32"
  shows "fl (fl (real (40 * n) / fl (real n * 100)) * 100) = 40"
    and "fl (fl (real (70 * n) / fl (real n * 100)) * 100) = 70"
proof -
  have "n * 100 < 2 ^ 53" using assms(2) by simp
  then have "fl (real (n * 100)) = real (n * 100)" by (rule fl_nat)
  then have den: "fl (real n * 100) = real n * 100" by simp
  have rn: "real n \<noteq> 0" using assms(1) by simp
  have a: "real (40 * n) / (real n * 100) = 2 / 5" using rn by simp
  have b: "real (70 * n) / (real n * 100) = 7 / 10" using rn by simp
  show "fl (fl (real (40 * n) / fl (real n * 100)) * 100) = 40"
    by (simp only: den a fl_40)
  show "fl (fl (real (70 * n) / fl (real n * 100)) * 100) = 70"
    by (simp only: den b fl_70)
qed

lemma below:
  fixes d a T r :: real
  assumes "\<bar>d - a\<bar> \<le> 1 / 2 ^ 45" "a \<le> T - r" "1 / 2 ^ 45 < r"
  shows "d < T"
proof -
  have "d - a \<le> 1 / 2 ^ 45" using assms(1) by linarith
  then show ?thesis using assms(2,3) by linarith
qed

lemma above:
  fixes d a T r :: real
  assumes "\<bar>d - a\<bar> \<le> 1 / 2 ^ 45" "T + r \<le> a" "1 / 2 ^ 45 < r"
  shows "T < d"
proof -
  have "a - d \<le> 1 / 2 ^ 45" using assms(1) by linarith
  then show ?thesis using assms(2,3) by linarith
qed

lemma small_n:
  fixes n :: nat
  assumes "0 < n" "n < 2 ^ 32"
  shows "1 / 2 ^ 45 < 1 / real n"
proof -
  have "real n < real (2 ^ 32)" using assms(2) by (simp only: of_nat_less_iff)
  then have "real n < 2 ^ 32" by simp
  moreover have "0 < real n" using assms(1) by simp
  ultimately have "1 / (2 ^ 32 :: real) < 1 / real n" by (simp add: field_simps)
  moreover have "1 / (2 ^ 45 :: real) < 1 / 2 ^ 32" by simp
  ultimately show ?thesis by linarith
qed

lemma nat_trichotomy:
  fixes Sn n T :: nat
  shows "Sn = T * n \<or> Sn + 1 \<le> T * n \<or> T * n + 1 \<le> Sn"
  by arith

lemma shift_by_one:
  fixes Sn n T :: nat
  assumes "0 < n"
  shows "Sn + 1 \<le> T * n \<Longrightarrow> real Sn / real n \<le> real T - 1 / real n"
    and "T * n + 1 \<le> Sn \<Longrightarrow> real T + 1 / real n \<le> real Sn / real n"
proof -
  have rn: "0 < real n" using assms by simp
  have t: "real (T * n) / real n = real T" using rn by simp
  {
    assume "Sn + 1 \<le> T * n"
    then have "real (Sn + 1) \<le> real (T * n)" by (simp only: of_nat_le_iff)
    then have "real (Sn + 1) / real n \<le> real (T * n) / real n"
      using rn by (intro divide_right_mono) simp_all
    moreover have "real (Sn + 1) / real n = real Sn / real n + 1 / real n"
      by (simp add: add_divide_distrib)
    ultimately show "real Sn / real n \<le> real T - 1 / real n" using t by linarith
  }
  {
    assume "T * n + 1 \<le> Sn"
    then have "real (T * n + 1) \<le> real Sn" by (simp only: of_nat_le_iff)
    then have "real (T * n + 1) / real n \<le> real Sn / real n"
      using rn by (intro divide_right_mono) simp_all
    moreover have "real (T * n + 1) / real n = real (T * n) / real n + 1 / real n"
      by (simp add: add_divide_distrib)
    ultimately show "real T + 1 / real n \<le> real Sn / real n" using t by linarith
  }
qed

lemma percent_le:
  fixes Sn n T :: nat
  assumes n: "0 < n" "n < 2 ^ 32" and lo: "40 * n \<le> Sn" and hi: "Sn \<le> 100 * n"
    and ex: "fl (fl (real (T * n) / fl (real n * 100)) * 100) = real T"
  shows "fl (fl (real Sn / fl (real n * 100)) * 100) \<le> real T \<longleftrightarrow> Sn \<le> T * n"
proof -
  let ?d = "fl (fl (real Sn / fl (real n * 100)) * 100)"
  note e = percent_double [OF n lo hi]
  note sm = small_n [OF n]
  from nat_trichotomy [of Sn T n] show ?thesis
  proof (elim disjE)
    assume 1: "Sn = T * n"
    have "?d = real T" by (simp only: 1 ex)
    then show ?thesis using 1 by simp
  next
    assume 2: "Sn + 1 \<le> T * n"
    have "?d < real T" by (rule below [OF e shift_by_one(1) [OF n(1) 2] sm])
    moreover have "Sn \<le> T * n" using 2 by linarith
    ultimately show ?thesis by simp
  next
    assume 3: "T * n + 1 \<le> Sn"
    have "real T < ?d" by (rule above [OF e shift_by_one(2) [OF n(1) 3] sm])
    moreover have "\<not> Sn \<le> T * n" using 3 by linarith
    ultimately show ?thesis by simp
  qed
qed

text \<open>
  The total of the weights is \<open>40 n + 30 k\<close> with \<open>k \<le> 2 n\<close>, and the \<^verbatim>\<open>reduce\<close>
  computes it without rounding error.
\<close>

lemma levelScore_nat: "\<exists>j::nat. levelScore l = real (40 + 30 * j) \<and> j \<le> 2"
proof (cases l)
  case Level_A
  show ?thesis by (rule exI [of _ 0]) (simp add: Level_A levelScore_def)
next
  case Level_B
  show ?thesis by (rule exI [of _ 1]) (simp add: Level_B levelScore_def)
next
  case Level_C
  show ?thesis by (rule exI [of _ 2]) (simp add: Level_C levelScore_def)
qed

lemma levelScore_spec: "levelScore l = spec_weight l"
  by (simp add: levelScore_def spec_weight_def)

lemma sum_levelScore:
  "\<exists>k::nat. sum_list (map (\<lambda>r. levelScore (res_level r)) data)
                = real (40 * length data + 30 * k)
      \<and> k \<le> 2 * length data"
proof (induction data)
  case Nil
  show ?case by (rule exI [of _ 0]) simp
next
  case (Cons r data)
  then obtain k :: nat
    where k: "sum_list (map (\<lambda>r. levelScore (res_level r)) data)
                = real (40 * length data + 30 * k)"
      and b: "k \<le> 2 * length data"
    by (elim exE conjE)
  obtain j :: nat where j: "levelScore (res_level r) = real (40 + 30 * j)" and jb: "j \<le> 2"
    using levelScore_nat [of "res_level r"] by (elim exE conjE)
  have "sum_list (map (\<lambda>r. levelScore (res_level r)) (r # data))
      = real (40 * length (r # data) + 30 * (j + k))"
    by (simp add: k j)
  moreover have "j + k \<le> 2 * length (r # data)" using b jb by simp
  ultimately show ?case by (intro exI [of _ "j + k"] conjI)
qed

lemma total_exact:
  "a + 100 * length data < 2 ^ 53 \<Longrightarrow>
   foldl (\<lambda>sum r. fl (sum + levelScore (res_level r))) (real a) data
     = real a + sum_list (map (\<lambda>r. levelScore (res_level r)) data)"
proof (induction data arbitrary: a)
  case Nil
  show ?case by simp
next
  case (Cons r data)
  obtain j :: nat where j: "levelScore (res_level r) = real (40 + 30 * j)" and jb: "j \<le> 2"
    using levelScore_nat [of "res_level r"] by (elim exE conjE)
  define w where "w = 4 + 3 * j"
  have w: "levelScore (res_level r) = real (10 * w)" by (simp add: j w_def)
  have wb: "w \<le> 10" using jb by (simp add: w_def)
  have lt: "a + 10 * w < 2 ^ 53" using Cons.prems wb by simp
  have "fl (real a + levelScore (res_level r)) = fl (real (a + 10 * w))" by (simp add: w)
  also have "\<dots> = real (a + 10 * w)" using lt by (rule fl_nat)
  finally have step: "fl (real a + levelScore (res_level r)) = real (a + 10 * w)" .
  have "(a + 10 * w) + 100 * length data < 2 ^ 53" using Cons.prems wb by simp
  note ih = Cons.IH [OF this]
  have "foldl (\<lambda>sum r. fl (sum + levelScore (res_level r))) (real a) (r # data)
      = foldl (\<lambda>sum r. fl (sum + levelScore (res_level r))) (real (a + 10 * w)) data"
    by (simp only: foldl_Cons step)
  also have "\<dots> = real (a + 10 * w) + sum_list (map (\<lambda>r. levelScore (res_level r)) data)"
    by (rule ih)
  also have "\<dots> = real a + sum_list (map (\<lambda>r. levelScore (res_level r)) (r # data))"
    by (simp add: w)
  finally show ?case .
qed

lemma nearest_tenth:
  fixes Sn n :: nat and d :: real
  assumes n: "0 < n" "n < 2 ^ 32" and e: "\<bar>d - real Sn / real n\<bar> \<le> 1 / 2 ^ 45"
  shows "\<bar>of_int \<lfloor>d * 10 + 1 / 2\<rfloor> / 10 - real Sn / real n\<bar> \<le> 1 / 20"
proof -
  define P where "P = \<lfloor>d * 10 + 1 / 2\<rfloor>"
  define a where "a = real Sn / real n"
  have rn: "0 < real n" using n(1) by simp
  have f: "of_int P \<le> d * 10 + 1 / 2" "d * 10 + 1 / 2 < of_int P + 1"
    unfolding P_def by linarith+
  have e1: "d - a \<le> 1 / 2 ^ 45" "a - d \<le> 1 / 2 ^ 45" using e unfolding a_def by linarith+
  have u: "of_int P - 10 * a \<le> 1 / 2 + 10 / 2 ^ 45" using f(1) e1(1) by simp
  have l: "10 * a - of_int P \<le> 1 / 2 + 10 / 2 ^ 45" using f(2) e1(2) by simp
  define Z where "Z = 2 * int n * P - 20 * int Sn"
  have Z: "of_int Z = 2 * real n * (of_int P - 10 * a)"
    using rn by (simp add: Z_def a_def right_diff_distrib)
  have nb: "20 * real n / 2 ^ 45 < 1"
  proof -
    have "real n < real (2 ^ 32)" using n(2) by (simp only: of_nat_less_iff)
    then show ?thesis by simp
  qed
  have "2 * real n * (of_int P - 10 * a) \<le> 2 * real n * (1 / 2 + 10 / 2 ^ 45)"
    using u rn by (intro mult_left_mono) simp_all
  also have "\<dots> = real n + 20 * real n / 2 ^ 45" by (simp add: algebra_simps)
  finally have "of_int Z < real n + 1" using nb Z by linarith
  then have "of_int Z < (of_int (int n + 1) :: real)" by simp
  then have zu: "Z \<le> int n" by simp
  have "2 * real n * (10 * a - of_int P) \<le> 2 * real n * (1 / 2 + 10 / 2 ^ 45)"
    using l rn by (intro mult_left_mono) simp_all
  also have "\<dots> = real n + 20 * real n / 2 ^ 45" by (simp add: algebra_simps)
  finally have "2 * real n * (10 * a - of_int P) < real n + 1" using nb by linarith
  moreover have "2 * real n * (10 * a - of_int P) = of_int (- Z)"
    using Z by (simp add: algebra_simps)
  ultimately have "of_int (- Z) < (of_int (int n + 1) :: real)" by simp
  then have zl: "- Z \<le> int n" by simp
  have "(of_int Z :: real) \<le> of_int (int n)" using zu by (simp only: of_int_le_iff)
  then have 1: "2 * real n * (of_int P - 10 * a) \<le> real n" using Z by simp
  have "(of_int (- Z) :: real) \<le> of_int (int n)" using zl by (simp only: of_int_le_iff)
  then have 2: "- (2 * real n * (of_int P - 10 * a)) \<le> real n" using Z by simp
  have 3: "of_int P - 10 * a \<le> 1 / 2"
  proof (rule ccontr)
    assume "\<not> of_int P - 10 * a \<le> 1 / 2"
    then have "1 / 2 < of_int P - 10 * a" by simp
    then have "2 * real n * (1 / 2) < 2 * real n * (of_int P - 10 * a)"
      using rn by (intro mult_strict_left_mono) simp_all
    then show False using 1 by simp
  qed
  have 4: "10 * a - of_int P \<le> 1 / 2"
  proof (rule ccontr)
    assume "\<not> 10 * a - of_int P \<le> 1 / 2"
    then have "1 / 2 < 10 * a - of_int P" by simp
    then have "2 * real n * (1 / 2) < 2 * real n * (10 * a - of_int P)"
      using rn by (intro mult_strict_left_mono) simp_all
    then show False using 2 by (simp add: algebra_simps)
  qed
  have "\<bar>of_int P / 10 - a\<bar> \<le> 1 / 20" using 3 4 by linarith
  then show ?thesis by (simp only: P_def a_def)
qed

lemma fl_tenths_le:
  fixes P :: int and T :: nat
  assumes P: "0 < P" "P < 1280" and T: "T < 128"
  shows "fl (of_int P / 10) \<le> real T \<longleftrightarrow> P \<le> 10 * int T"
proof -
  let ?x = "of_int P / 10 :: real"
  have x0: "0 < ?x" using P(1) by simp
  have "(of_int P :: real) < of_int 1280" using P(2) by (simp only: of_int_less_iff)
  then have x1: "?x < 2 ^ 7" by simp
  have e: "\<bar>fl ?x - ?x\<bar> \<le> 2 ^ 7 / 2 ^ 54" using x0 x1 by (rule fl_error)
  have e1: "fl ?x - ?x \<le> 2 ^ 7 / 2 ^ 54" "?x - fl ?x \<le> 2 ^ 7 / 2 ^ 54"
    using e by linarith+
  consider "P = 10 * int T" | "P + 1 \<le> 10 * int T" | "10 * int T + 1 \<le> P" by linarith
  then show ?thesis
  proof cases
    case 1
    have "T < 2 ^ 53" using T by simp
    then have "fl (real T) = real T" by (rule fl_nat)
    moreover have "?x = real T" using 1 by simp
    ultimately show ?thesis using 1 by simp
  next
    case 2
    then have "(of_int (P + 1) :: real) \<le> of_int (10 * int T)" by (simp only: of_int_le_iff)
    then have "?x \<le> real T - 1 / 10" by simp
    moreover have "(2::real) ^ 7 / 2 ^ 54 < 1 / 10" by simp
    ultimately have "fl ?x < real T" using e1(1) by linarith
    then show ?thesis using 2 by simp
  next
    case 3
    then have "(of_int (10 * int T + 1) :: real) \<le> of_int P" by (simp only: of_int_le_iff)
    then have "real T + 1 / 10 \<le> ?x" by simp
    moreover have "(2::real) ^ 7 / 2 ^ 54 < 1 / 10" by simp
    ultimately have "real T < fl ?x" using e1(2) by linarith
    then show ?thesis using 3 by simp
  qed
qed

lemma tenth_le:
  fixes P :: int and Sn n T :: nat
  assumes n: "0 < n" "n < 600"
    and near: "\<bar>of_int P / 10 - real Sn / real n\<bar> \<le> 1 / 20"
    and gap: "Sn \<le> T * n \<or> T * n + 30 \<le> Sn"
  shows "P \<le> 10 * int T \<longleftrightarrow> Sn \<le> T * n"
proof -
  have rn: "0 < real n" using n(1) by simp
  have t: "real (T * n) / real n = real T" using rn by simp
  have n1: "of_int P / 10 - real Sn / real n \<le> 1 / 20"
    and n2: "real Sn / real n - of_int P / 10 \<le> 1 / 20"
    using near by linarith+
  from gap show ?thesis
  proof
    assume le: "Sn \<le> T * n"
    then have "real Sn \<le> real (T * n)" by (simp only: of_nat_le_iff)
    then have "real Sn / real n \<le> real (T * n) / real n" using rn by (simp only: divide_right_mono less_imp_le)
    then have "real Sn / real n \<le> real T" by (simp only: t)
    then have "of_int P \<le> 10 * real T + 1 / 2" using n1 by linarith
    then have "(of_int P :: real) < of_int (10 * int T + 1)" by simp
    then have "P < 10 * int T + 1" by (simp only: of_int_less_iff)
    then show ?thesis using le by simp
  next
    assume ge: "T * n + 30 \<le> Sn"
    then have "real (T * n + 30) \<le> real Sn" by (simp only: of_nat_le_iff)
    then have "real (T * n + 30) / real n \<le> real Sn / real n"
      using rn by (simp only: divide_right_mono less_imp_le)
    moreover have "real (T * n + 30) / real n = real T + 30 / real n"
      using rn by (simp add: add_divide_distrib)
    ultimately have a: "real T + 30 / real n \<le> real Sn / real n" by simp
    have "real n < real 600" using n(2) by (simp only: of_nat_less_iff)
    then have "real n < 600" by simp
    then have "1 / 20 < 30 / real n" using rn by (simp add: field_simps)
    then have "10 * real T < of_int P" using a n2 by linarith
    then have "(of_int (10 * int T) :: real) < of_int P" by simp
    then have "10 * int T < P" by (simp only: of_int_less_iff)
    then show ?thesis using ge by simp
  qed
qed

lemma calculateConclusion_nonempty:
  assumes ne: "data \<noteq> []" and len: "length data < 2 ^ 32"
  shows "\<exists>c P. calculateConclusion data = Some c
      \<and> spec_percent data
          = sum_list (map (\<lambda>r. spec_weight (res_level r)) data) / real (length data)
      \<and> percent c = fl (of_int P / 10)
      \<and> \<bar>of_int P / 10 - spec_percent data\<bar> \<le> 1 / 20
      \<and> (of_int \<lfloor>spec_percent data * 10 + 1 / 2\<rfloor> \<noteq> spec_percent data * 10 + 1 / 2
           \<longrightarrow> of_int P / 10 = toFixed 1 (spec_percent data))
      \<and> label_c c = (if spec_percent data \<le> 40 then ''Minor''
                      else if spec_percent data \<le> 70 then ''Moderate'' else ''Severe'')
      \<and> (length data < 600
           \<longrightarrow> label_c c = (if percent c \<le> 40 then ''Minor''
                              else if percent c \<le> 70 then ''Moderate'' else ''Severe''))"
proof -
  define n where "n = length data"
  have npos: "0 < n" using ne by (simp add: n_def)
  have nlt: "n < 2 ^ 32" using len by (simp add: n_def)
  have rn: "0 < real n" using npos by simp
  obtain k :: nat
    where S: "sum_list (map (\<lambda>r. levelScore (res_level r)) data) = real (40 * n + 30 * k)"
      and kb: "k \<le> 2 * n"
    using sum_levelScore [of data] unfolding n_def by (elim exE conjE)
  define Sn where "Sn = 40 * n + 30 * k"
  have S': "sum_list (map (\<lambda>r. levelScore (res_level r)) data) = real Sn"
    by (simp only: S Sn_def)
  have lo: "40 * n \<le> Sn" by (simp add: Sn_def)
  have hi: "Sn \<le> 100 * n" using kb by (simp add: Sn_def)
  have "0 + 100 * length data < (2::nat) ^ 53" using len by simp
  then have "foldl (\<lambda>sum r. fl (sum + levelScore (res_level r))) (real 0) data
      = real 0 + sum_list (map (\<lambda>r. levelScore (res_level r)) data)"
    by (rule total_exact)
  then have tot: "foldl (\<lambda>sum r. fl (sum + levelScore (res_level r))) 0 data = real Sn"
    by (simp add: S')
  define d where "d = fl (fl (real Sn / fl (real n * 100)) * 100)"
  have e: "\<bar>d - real Sn / real n\<bar> \<le> 1 / 2 ^ 45"
    unfolding d_def using npos nlt lo hi by (rule percent_double)
  have "real (40 * n) \<le> real Sn" using lo by (simp only: of_nat_le_iff)
  then have "real (40 * n) / real n \<le> real Sn / real n"
    using rn by (simp only: divide_right_mono less_imp_le)
  then have alo: "40 \<le> real Sn / real n" using rn by simp
  have "real Sn \<le> real (100 * n)" using hi by (simp only: of_nat_le_iff)
  then have "real Sn / real n \<le> real (100 * n) / real n"
    using rn by (simp only: divide_right_mono less_imp_le)
  then have ahi: "real Sn / real n \<le> 100" using rn by simp
  have e1: "d - real Sn / real n \<le> 1 / 2 ^ 45" "real Sn / real n - d \<le> 1 / 2 ^ 45"
    using e by linarith+
  have eps: "(1::real) / 2 ^ 45 \<le> 1" by simp
  have dlo: "39 \<le> d" using e1(2) alo eps by linarith
  define P where "P = \<lfloor>d * 10 + 1 / 2\<rfloor>"
  have tf: "toFixed 1 d = of_int P / 10" using dlo by (simp add: toFixed_def P_def)
  define lbl where "lbl = (if d \<le> 40 then ''Minor''
                           else if d \<le> 70 then ''Moderate'' else ''Severe'')"
  have cc: "calculateConclusion data = Some \<lparr>percent = fl (of_int P / 10), label_c = lbl\<rparr>"
    using ne npos by (simp add: calculateConclusion_def Let_def tot n_def [symmetric]
        d_def [symmetric] tf [unfolded One_nat_def] lbl_def)
  have "sum_list (map (\<lambda>r. spec_weight (res_level r)) data) = real Sn"
    by (simp only: levelScore_spec [symmetric] S')
  then have sp: "spec_percent data = real Sn / real n"
    and sp': "sum_list (map (\<lambda>r. spec_weight (res_level r)) data) / real (length data)
                = real Sn / real n"
    using rn by (simp_all add: spec_percent_def n_def)
  have near: "\<bar>of_int P / 10 - real Sn / real n\<bar> \<le> 1 / 20"
    unfolding P_def using npos nlt e by (rule nearest_tenth)
  have n1: "of_int P / 10 - real Sn / real n \<le> 1 / 20"
    and n2: "real Sn / real n - of_int P / 10 \<le> 1 / 20"
    using near by linarith+
  have tie: "of_int P / 10 = toFixed 1 (real Sn / real n)"
    if nt: "of_int \<lfloor>real Sn / real n * 10 + 1 / 2\<rfloor> \<noteq> real Sn / real n * 10 + 1 / 2"
  proof -
    define Q where "Q = \<lfloor>real Sn / real n * 10 + 1 / 2\<rfloor>"
    have q: "of_int Q \<le> real Sn / real n * 10 + 1 / 2" "real Sn / real n * 10 + 1 / 2 < of_int Q + 1"
      unfolding Q_def by linarith+
    have q': "of_int Q < real Sn / real n * 10 + 1 / 2"
      using q(1) nt [folded Q_def] by (rule le_neq_trans)
    have "(of_int P :: real) < of_int Q + 1" using n1 q(2) by linarith
    then have "(of_int P :: real) < of_int (Q + 1)" by simp
    then have 1: "P < Q + 1" by (simp only: of_int_less_iff)
    have "(of_int Q :: real) - 1 < of_int P" using n2 q' by linarith
    then have "(of_int (Q - 1) :: real) < of_int P" by simp
    then have 2: "Q - 1 < P" by (simp only: of_int_less_iff)
    have "P = Q" using 1 2 by simp
    moreover have "toFixed 1 (real Sn / real n) = of_int Q / 10"
      using alo by (simp add: toFixed_def Q_def)
    ultimately show ?thesis by simp
  qed
  have ex40: "fl (fl (real (40 * n) / fl (real n * 100)) * 100) = real 40"
    using percent_exact(1) [OF npos nlt] by simp
  have ex70: "fl (fl (real (70 * n) / fl (real n * 100)) * 100) = real 70"
    using percent_exact(2) [OF npos nlt] by simp
  have d40: "d \<le> 40 \<longleftrightarrow> Sn \<le> 40 * n"
    using percent_le [OF npos nlt lo hi ex40] by (simp add: d_def)
  have d70: "d \<le> 70 \<longleftrightarrow> Sn \<le> 70 * n"
    using percent_le [OF npos nlt lo hi ex70] by (simp add: d_def)
  have a40: "real Sn / real n \<le> 40 \<longleftrightarrow> Sn \<le> 40 * n"
  proof -
    have "real Sn / real n \<le> 40 \<longleftrightarrow> real Sn \<le> real (40 * n)" using rn by (simp add: field_simps)
    then show ?thesis by (simp only: of_nat_le_iff)
  qed
  have a70: "real Sn / real n \<le> 70 \<longleftrightarrow> Sn \<le> 70 * n"
  proof -
    have "real Sn / real n \<le> 70 \<longleftrightarrow> real Sn \<le> real (70 * n)" using rn by (simp add: field_simps)
    then show ?thesis by (simp only: of_nat_le_iff)
  qed
  have lab: "lbl = (if real Sn / real n \<le> 40 then ''Minor''
                    else if real Sn / real n \<le> 70 then ''Moderate'' else ''Severe'')"
    by (simp only: lbl_def d40 d70 a40 a70)
  have rlab: "lbl = (if fl (of_int P / 10) \<le> 40 then ''Minor''
                     else if fl (of_int P / 10) \<le> 70 then ''Moderate'' else ''Severe'')"
    if small: "n < 600"
  proof -
    have "(0::real) < of_int P" using n2 alo by linarith
    then have "(of_int 0 :: real) < of_int P" by simp
    then have p0: "0 < P" by (simp only: of_int_less_iff)
    have "(of_int P :: real) < 1280" using n1 ahi by linarith
    then have "(of_int P :: real) < of_int 1280" by simp
    then have p1: "P < 1280" by (simp only: of_int_less_iff)
    have g40: "Sn \<le> 40 * n \<or> 40 * n + 30 \<le> Sn" by (cases k) (simp_all add: Sn_def)
    have g70: "Sn \<le> 70 * n \<or> 70 * n + 30 \<le> Sn"
    proof (cases "k \<le> n")
      case True
      then show ?thesis by (simp add: Sn_def)
    next
      case False
      then have "n + 1 \<le> k" by simp
      then have "30 * (n + 1) \<le> 30 * k" by (simp only: mult_le_mono2)
      then show ?thesis by (simp add: Sn_def)
    qed
    have f40: "fl (of_int P / 10) \<le> real 40 \<longleftrightarrow> P \<le> 10 * int 40"
      using p0 p1 by (rule fl_tenths_le) simp
    have f70: "fl (of_int P / 10) \<le> real 70 \<longleftrightarrow> P \<le> 10 * int 70"
      using p0 p1 by (rule fl_tenths_le) simp
    have t40: "P \<le> 10 * int 40 \<longleftrightarrow> Sn \<le> 40 * n" using npos small near g40 by (rule tenth_le)
    have t70: "P \<le> 10 * int 70 \<longleftrightarrow> Sn \<le> 70 * n" using npos small near g70 by (rule tenth_le)
    have r40: "fl (of_int P / 10) \<le> 40 \<longleftrightarrow> Sn \<le> 40 * n" using f40 t40 by simp
    have r70: "fl (of_int P / 10) \<le> 70 \<longleftrightarrow> Sn \<le> 70 * n" using f70 t70 by simp
    show ?thesis by (simp only: lbl_def d40 d70 r40 r70)
  qed
  show ?thesis
  proof (intro exI conjI impI)
    show "calculateConclusion data = Some \<lparr>percent = fl (of_int P / 10), label_c = lbl\<rparr>"
      by (rule cc)
    show "spec_percent data
          = sum_list (map (\<lambda>r. spec_weight (res_level r)) data) / real (length data)"
      by (simp only: sp sp')
    show "percent \<lparr>percent = fl (of_int P / 10), label_c = lbl\<rparr> = fl (of_int P / 10)"
      by simp
    show "\<bar>of_int P / 10 - spec_percent data\<bar> \<le> 1 / 20" using near by (simp only: sp)
    show "of_int P / 10 = toFixed 1 (spec_percent data)"
      if "of_int \<lfloor>spec_percent data * 10 + 1 / 2\<rfloor> \<noteq> spec_percent data * 10 + 1 / 2"
      using tie [OF that [unfolded sp]] by (simp only: sp)
    show "label_c \<lparr>percent = fl (of_int P / 10), label_c = lbl\<rparr>
          = (if spec_percent data \<le> 40 then ''Minor''
             else if spec_percent data \<le> 70 then ''Moderate'' else ''Severe'')"
      using lab by (simp add: sp)
    show "label_c \<lparr>percent = fl (of_int P / 10), label_c = lbl\<rparr>
          = (if percent \<lparr>percent = fl (of_int P / 10), label_c = lbl\<rparr> \<le> 40 then ''Minor''
             else if percent \<lparr>percent = fl (of_int P / 10), label_c = lbl\<rparr> \<le> 70
             then ''Moderate'' else ''Severe'')"
      if "length data < 600"
      using rlab that by (simp add: n_def)
  qed
qed

section \<open>Certainty-factor expert system: the claims\<close>

lemma fold_collect:
  "fold (collect answers) sids acc =
     acc @ List.map_filter
       (\<lambda>sid. case answers sid of
                 None \<Rightarrow> None
               | Some a \<Rightarrow>
                   (case List.find (\<lambda>s. sym_id s = sid) symptoms of
                      None \<Rightarrow> None
                    | Some s \<Rightarrow> Some (fuzzyLevelToValue a * cfExpert s)))
       sids"
  by (induction sids arbitrary: acc)
     (simp_all add: collect_def Let_def split: option.splits)

lemma fold_collect_evidence:
  "fold (collect answers) (rule_symptoms rule) [] = spec_evidence answers rule"
  by (simp add: fold_collect spec_evidence_def)

lemma toFixed_pos: "0 < x \<Longrightarrow> toFixed 2 x = of_int (round (x * 100)) / 100"
  by (simp add: toFixed_def round_def)

lemma emit_eq:
  "(if c > 0
    then out @ [\<lparr>res_id = i, res_level = l, damage = d, solution = s, cfRule = toFixed 2 c\<rparr>]
    else out)
   = out @ (case (if c > 0
                  then Some \<lparr>res_id = i, res_level = l, damage = d, solution = s,
                              cfRule = of_int (round (c * 100)) / 100\<rparr>
                  else None) of None \<Rightarrow> [] | Some d \<Rightarrow> [d])"
  by (simp add: toFixed_pos)

lemma diagnoseRule_spec:
  assumes "rule_operator rule = ''OR'' \<or> rule_operator rule = ''AND''"
  shows "diagnoseRule answers rule out =
           out @ (case spec_diagnosis answers rule of None \<Rightarrow> [] | Some d \<Rightarrow> [d])"
proof (cases "spec_evidence answers rule")
  case Nil
  then show ?thesis
    by (simp add: diagnoseRule_def fold_collect_evidence spec_diagnosis_def)
next
  case (Cons v vs)
  define c where "c = (if rule_operator rule = ''OR'' then fold max vs v else fold min vs v)"
  have comb: "spec_combine (rule_operator rule) (v # vs) = Some c"
  proof (cases "rule_operator rule = ''OR''")
    case True
    then show ?thesis by (simp only: spec_combine_def c_def Max.set_eq_fold simp_thms if_True)
  next
    case False
    then have a: "rule_operator rule = ''AND''" using assms by blast
    have ne: "(''AND'' = ''OR'') = False" by simp
    show ?thesis by (simp only: a ne spec_combine_def c_def Min.set_eq_fold simp_thms if_True if_False)
  qed
  have lhs: "diagnoseRule answers rule out =
     (if c > 0
      then out @ [\<lparr>res_id = rule_id rule, res_level = rule_level rule,
                     damage = rule_damage rule, solution = rule_solution rule,
                     cfRule = toFixed 2 c\<rparr>]
      else out)"
    by (simp add: diagnoseRule_def fold_collect_evidence Cons c_def Let_def)
  have rhs: "spec_diagnosis answers rule =
     (if c > 0
      then Some \<lparr>res_id = rule_id rule, res_level = rule_level rule,
                  damage = rule_damage rule, solution = rule_solution rule,
                  cfRule = of_int (round (c * 100)) / 100\<rparr>
      else None)"
    by (simp add: spec_diagnosis_def Cons comb Let_def)
  show ?thesis by (simp only: lhs rhs emit_eq)
qed

lemma fold_diagnoseRule:
  assumes "\<forall>rule \<in> set rules. rule_operator rule = ''OR'' \<or> rule_operator rule = ''AND''"
  shows "fold (diagnoseRule answers) rules out
           = out @ List.map_filter (spec_diagnosis answers) rules"
  using assms
proof (induction rules arbitrary: out)
  case Nil
  then show ?case by simp
next
  case (Cons rule rules)
  then show ?case
    by (simp add: diagnoseRule_spec split: option.splits)
qed

lemma no_answer_no_evidence:
  assumes "\<forall>sid \<in> set (rule_symptoms rule). answers sid = None"
  shows "spec_evidence answers rule = []"
proof -
  have "\<forall>sid \<in> set sids. answers sid = None \<Longrightarrow>
     List.map_filter
       (\<lambda>sid. case answers sid of
                 None \<Rightarrow> None
               | Some a \<Rightarrow>
                   (case List.find (\<lambda>s. sym_id s = sid) symptoms of
                      None \<Rightarrow> None
                    | Some s \<Rightarrow> Some (fuzzyLevelToValue a * cfExpert s)))
       sids = []" for sids
    by (induction sids) simp_all
  then show ?thesis using assms by (simp add: spec_evidence_def)
qed

text \<open>
  Claim C1. For every rule list whose operators are OR or AND and every answer sheet,
  \<^verbatim>\<open>runDiagnosis\<close> yields, rule by rule and in catalog order, what the specification
  describes: the evidence of a rule is, for each of its symptoms that has an answer, the
  fuzzy value of the answer (No 0, Sometimes 0.5, Yes 1) times the symptom's expert
  certainty factor; the evidence is combined by maximum for OR and by minimum for AND; a
  rule with no answered symptom yields nothing; and a result is emitted, with the
  combined value rounded to two decimals, exactly when the combined value is positive.
\<close>

theorem runDiagnosis_certainty_factors:
  assumes "\<forall>rule \<in> set rules. rule_operator rule = ''OR'' \<or> rule_operator rule = ''AND''"
  shows "fst (runDiagnosis rules answers) = List.map_filter (spec_diagnosis answers) rules
       \<and> (\<forall>rule \<in> set rules. (\<forall>sid \<in> set (rule_symptoms rule). answers sid = None)
             \<longrightarrow> spec_diagnosis answers rule = None)
       \<and> fuzzyLevelToValue No = 0 \<and> fuzzyLevelToValue Sometimes = 0.5
       \<and> fuzzyLevelToValue Yes = 1"
proof -
  have "fst (runDiagnosis rules answers) = List.map_filter (spec_diagnosis answers) rules"
    using fold_diagnoseRule [OF assms, of answers "[]"] by (simp add: runDiagnosis_def Let_def)
  moreover have "\<forall>rule \<in> set rules. (\<forall>sid \<in> set (rule_symptoms rule). answers sid = None)
             \<longrightarrow> spec_diagnosis answers rule = None"
    by (simp add: spec_diagnosis_def no_answer_no_evidence)
  ultimately show ?thesis by (simp add: fuzzyLevelToValue_def)
qed

lemma example_operators: "\<forall>rule \<in> set example_rules. rule_operator rule = ''OR'' \<or> rule_operator rule = ''AND''"
  by (simp add: example_rules_def)

lemma example_spec: "List.map_filter (spec_diagnosis example_answers) example_rules =
        [\<lparr>res_id = ''R1'', res_level = Level_A, damage = ''d1'', solution = ''s1'', cfRule = 1\<rparr>,
         \<lparr>res_id = ''R3'', res_level = Level_B, damage = ''d3'', solution = ''s3'', cfRule = 0.4\<rparr>]"
  by (simp add: example_rules_def example_answers_def spec_diagnosis_def spec_evidence_def
      spec_combine_def symptoms_def fuzzyLevelToValue_def round_def)

theorem runDiagnosis_certainty_factors_witness:
  "fst (runDiagnosis example_rules example_answers) =
        [\<lparr>res_id = ''R1'', res_level = Level_A, damage = ''d1'', solution = ''s1'', cfRule = 1\<rparr>,
         \<lparr>res_id = ''R3'', res_level = Level_B, damage = ''d3'', solution = ''s3'', cfRule = 0.4\<rparr>]"
  using runDiagnosis_certainty_factors [OF example_operators, of example_answers]
  by (simp only: example_spec)

subsection \<open>The conclusion\<close>

text \<open>
  \<^verbatim>\<open>calculateConclusion\<close> on the inputs of the examples: a Minor and a Severe
  result, and the two sets of eight results.
\<close>

lemma fl_numeral: "numeral k < (2::nat) ^ 53 \<Longrightarrow> fl (numeral k) = numeral k"
  using fl_nat [of "numeral k"] by simp

lemma fl_53_80: "fl (53 / 80) = 5967269506265907 / 2 ^ 53"
  by (simp add: fl_small [of "53 / 80" 1] rne_def)

lemma fl_6625: "fl (fl (53 / 80) * 100) = 265 / 4"
proof -
  let ?y = "5967269506265907 / 2 ^ 53 * 100 :: real"
  have "fl ?y = of_int (rne (?y * 2 ^ (52 - 6))) / 2 ^ (52 - 6)"
    by (rule fl_big) simp_all
  also have "\<dots> = 265 / 4" by (simp add: rne_def)
  finally show ?thesis by (simp only: fl_53_80)
qed

lemma conclusion_minor_severe:
  assumes "res_level r1 = Level_A" "res_level r2 = Level_C"
  shows "calculateConclusion [r1, r2] = Some \<lparr>percent = 70, label_c = ''Moderate''\<rparr>"
proof -
  have tf: "toFixed (Suc 0) 70 = 70" by (simp add: toFixed_def)
  show ?thesis
    by (simp add: calculateConclusion_def Let_def assms levelScore_def fl_numeral fl_70 tf)
qed

lemma conclusion_tie_down:
  "calculateConclusion example_tie_down = Some \<lparr>percent = fl (512 / 10), label_c = ''Moderate''\<rparr>"
proof -
  have len: "length example_tie_down = 8" by (simp add: example_tie_down_def)
  have "0 + 100 * length example_tie_down < (2::nat) ^ 53" by (simp add: len)
  then have "foldl (\<lambda>sum r. fl (sum + levelScore (res_level r))) (real 0) example_tie_down
      = real 0 + sum_list (map (\<lambda>r. levelScore (res_level r)) example_tie_down)"
    by (rule total_exact)
  then have tot: "foldl (\<lambda>sum r. fl (sum + levelScore (res_level r))) 0 example_tie_down = 410"
    by (simp add: example_tie_down_def example_minor_def example_moderate_def levelScore_def)
  have tf: "toFixed (Suc 0) (7212796278210559 / 2 ^ 47) = 512 / 10" by (simp add: toFixed_def)
  have "calculateConclusion example_tie_down
      = Some \<lparr>percent = fl (toFixed (Suc 0) (fl (fl (41 / 80) * 100))),
              label_c = (if fl (fl (41 / 80) * 100) \<le> 40 then ''Minor''
                         else if fl (fl (41 / 80) * 100) \<le> 70 then ''Moderate''
                         else ''Severe'')\<rparr>"
    by (simp add: calculateConclusion_def Let_def tot len fl_numeral)
  also have "\<dots> = Some \<lparr>percent = fl (512 / 10), label_c = ''Moderate''\<rparr>"
    by (simp only: fl_5125 tf) simp
  finally show ?thesis .
qed

lemma conclusion_tie_up:
  "calculateConclusion example_tie_up = Some \<lparr>percent = fl (663 / 10), label_c = ''Moderate''\<rparr>"
proof -
  have len: "length example_tie_up = 8" by (simp add: example_tie_up_def)
  have "0 + 100 * length example_tie_up < (2::nat) ^ 53" by (simp add: len)
  then have "foldl (\<lambda>sum r. fl (sum + levelScore (res_level r))) (real 0) example_tie_up
      = real 0 + sum_list (map (\<lambda>r. levelScore (res_level r)) example_tie_up)"
    by (rule total_exact)
  then have tot: "foldl (\<lambda>sum r. fl (sum + levelScore (res_level r))) 0 example_tie_up = 530"
    by (simp add: example_tie_up_def example_minor_def example_moderate_def example_severe_def
        levelScore_def)
  have tf: "toFixed (Suc 0) (265 / 4) = 663 / 10" by (simp add: toFixed_def)
  have "calculateConclusion example_tie_up
      = Some \<lparr>percent = fl (toFixed (Suc 0) (fl (fl (53 / 80) * 100))),
              label_c = (if fl (fl (53 / 80) * 100) \<le> 40 then ''Minor''
                         else if fl (fl (53 / 80) * 100) \<le> 70 then ''Moderate''
                         else ''Severe'')\<rparr>"
    by (simp add: calculateConclusion_def Let_def tot len fl_numeral)
  also have "\<dots> = Some \<lparr>percent = fl (663 / 10), label_c = ''Moderate''\<rparr>"
    by (simp only: fl_6625 tf) simp
  finally show ?thesis .
qed

lemma fl_tenths_distinct: "fl (512 / 10) < fl (513 / 10)"
proof -
  have a: "\<bar>fl (512 / 10) - 512 / 10\<bar> \<le> 2 ^ 6 / 2 ^ 54" by (rule fl_error) simp_all
  have b: "\<bar>fl (513 / 10) - 513 / 10\<bar> \<le> 2 ^ 6 / 2 ^ 54" by (rule fl_error) simp_all
  have c: "(2::real) ^ 6 / 2 ^ 54 < 1 / 20" by simp
  show ?thesis using a b c by linarith
qed

lemma spec_percent_ties:
  "spec_percent example_tie_down = 205 / 4" "spec_percent example_tie_up = 265 / 4"
  by (simp_all add: spec_percent_def spec_weight_def example_tie_down_def example_tie_up_def
      example_minor_def example_moderate_def example_severe_def)

text \<open>
  Claim C2, as stated, fails where the average of the weights lies midway between two
  one-decimal numbers: the binary64 evaluation decides, and it goes either way. Five Minor
  and three Moderate results average 51.25; the code computes
  \<^verbatim>\<open>(410 / 800) * 100 = 51.24999999999999\<close> and gives 51.2, where rounding the average
  as \<^verbatim>\<open>toFixed\<close> rounds gives 51.3. Four Minor, one Moderate and three Severe results
  average 66.25; the code computes 66.25 and gives 66.3. Whatever a rounding rule does
  with a final digit 5 after an even digit, the code departs from it in one of the two.
\<close>

theorem calculateConclusion_not_rounded_average:
  "spec_percent example_tie_down = 205 / 4
   \<and> toFixed 1 (spec_percent example_tie_down) = 513 / 10
   \<and> calculateConclusion example_tie_down
       = Some \<lparr>percent = fl (512 / 10), label_c = ''Moderate''\<rparr>
   \<and> fl (512 / 10) \<noteq> fl (513 / 10)
   \<and> spec_percent example_tie_up = 265 / 4
   \<and> calculateConclusion example_tie_up
       = Some \<lparr>percent = fl (663 / 10), label_c = ''Moderate''\<rparr>"
proof (intro conjI)
  show "spec_percent example_tie_down = 205 / 4" by (rule spec_percent_ties)
  show "toFixed 1 (spec_percent example_tie_down) = 513 / 10"
    by (simp add: spec_percent_ties toFixed_def)
  show "calculateConclusion example_tie_down
       = Some \<lparr>percent = fl (512 / 10), label_c = ''Moderate''\<rparr>"
    by (rule conclusion_tie_down)
  show "fl (512 / 10) \<noteq> fl (513 / 10)" using fl_tenths_distinct by simp
  show "spec_percent example_tie_up = 265 / 4" by (rule spec_percent_ties)
  show "calculateConclusion example_tie_up
       = Some \<lparr>percent = fl (663 / 10), label_c = ''Moderate''\<rparr>"
    by (rule conclusion_tie_up)
qed

text \<open>
  Claim C2, as the code has it. With no fired rule there is no conclusion. With at least
  one (and fewer than \<open>2\<^sup>3\<^sup>2\<close>, the limit of an array), the percent of the conclusion
  is the binary64 value of a one-decimal number \<open>P / 10\<close> that is within 0.05 of the
  average of the weights (Minor 40, Moderate 70, Severe 100), which is
  \<open>(\<Sum> weight) / (count \<times> 100) \<times> 100\<close>; it is that average rounded to one decimal
  whenever the average is not midway between two one-decimal numbers. The label is Minor
  when the average is at most 40, Moderate when it is above 40 and at most 70, Severe
  otherwise; for fewer than 600 fired rules the label is the same when it is read off the
  rounded percent. Two fired rules of levels Minor and Severe give 70.0 and Moderate.
\<close>

theorem calculateConclusion_severity:
  "calculateConclusion [] = None
   \<and> (data \<noteq> [] \<and> length data < 2 ^ 32 \<longrightarrow>
        (\<exists>c P. calculateConclusion data = Some c
           \<and> spec_percent data
               = sum_list (map (\<lambda>r. spec_weight (res_level r)) data) / real (length data)
           \<and> percent c = fl (of_int P / 10)
           \<and> \<bar>of_int P / 10 - spec_percent data\<bar> \<le> 1 / 20
           \<and> (of_int \<lfloor>spec_percent data * 10 + 1 / 2\<rfloor> \<noteq> spec_percent data * 10 + 1 / 2
                \<longrightarrow> of_int P / 10 = toFixed 1 (spec_percent data))
           \<and> label_c c = (if spec_percent data \<le> 40 then ''Minor''
                           else if spec_percent data \<le> 70 then ''Moderate'' else ''Severe'')
           \<and> (length data < 600
                \<longrightarrow> label_c c = (if percent c \<le> 40 then ''Minor''
                                   else if percent c \<le> 70 then ''Moderate'' else ''Severe''))))
   \<and> (res_level r1 = Level_A \<and> res_level r2 = Level_C
        \<longrightarrow> calculateConclusion [r1, r2] = Some \<lparr>percent = 70, label_c = ''Moderate''\<rparr>)"
proof (intro conjI impI)
  show "calculateConclusion [] = None" by (simp add: calculateConclusion_def)
next
  assume "data \<noteq> [] \<and> length data < 2 ^ 32"
  then have "data \<noteq> []" "length data < 2 ^ 32" by simp_all
  then show "\<exists>c P. calculateConclusion data = Some c
           \<and> spec_percent data
               = sum_list (map (\<lambda>r. spec_weight (res_level r)) data) / real (length data)
           \<and> percent c = fl (of_int P / 10)
           \<and> \<bar>of_int P / 10 - spec_percent data\<bar> \<le> 1 / 20
           \<and> (of_int \<lfloor>spec_percent data * 10 + 1 / 2\<rfloor> \<noteq> spec_percent data * 10 + 1 / 2
                \<longrightarrow> of_int P / 10 = toFixed 1 (spec_percent data))
           \<and> label_c c = (if spec_percent data \<le> 40 then ''Minor''
                           else if spec_percent data \<le> 70 then ''Moderate'' else ''Severe'')
           \<and> (length data < 600
                \<longrightarrow> label_c c = (if percent c \<le> 40 then ''Minor''
                                   else if percent c \<le> 70 then ''Moderate'' else ''Severe''))"
    by (rule calculateConclusion_nonempty)
next
  assume "res_level r1 = Level_A \<and> res_level r2 = Level_C"
  then have "res_level r1 = Level_A" "res_level r2 = Level_C" by simp_all
  then show "calculateConclusion [r1, r2] = Some \<lparr>percent = 70, label_c = ''Moderate''\<rparr>"
    by (rule conclusion_minor_severe)
qed

theorem calculateConclusion_severity_witness:
  "calculateConclusion [example_minor, example_minor, example_severe]
     = Some \<lparr>percent = 60, label_c = ''Moderate''\<rparr>
   \<and> spec_percent [example_minor, example_minor, example_severe] = 60
   \<and> calculateConclusion [example_minor, example_severe]
       = Some \<lparr>percent = 70, label_c = ''Moderate''\<rparr>"
proof -
  let ?data = "[example_minor, example_minor, example_severe]"
  note t = calculateConclusion_severity [of ?data example_minor example_severe]
  have sp: "spec_percent ?data = 60"
    by (simp add: spec_percent_def spec_weight_def example_minor_def example_severe_def)
  have tf: "toFixed 1 60 = 60" by (simp add: toFixed_def)
  have h: "?data \<noteq> [] \<and> length ?data < 2 ^ 32" by simp
  from t have "?data \<noteq> [] \<and> length ?data < 2 ^ 32 \<longrightarrow>
        (\<exists>c P. calculateConclusion ?data = Some c
           \<and> spec_percent ?data
               = sum_list (map (\<lambda>r. spec_weight (res_level r)) ?data) / real (length ?data)
           \<and> percent c = fl (of_int P / 10)
           \<and> \<bar>of_int P / 10 - spec_percent ?data\<bar> \<le> 1 / 20
           \<and> (of_int \<lfloor>spec_percent ?data * 10 + 1 / 2\<rfloor> \<noteq> spec_percent ?data * 10 + 1 / 2
                \<longrightarrow> of_int P / 10 = toFixed 1 (spec_percent ?data))
           \<and> label_c c = (if spec_percent ?data \<le> 40 then ''Minor''
                           else if spec_percent ?data \<le> 70 then ''Moderate'' else ''Severe'')
           \<and> (length ?data < 600
                \<longrightarrow> label_c c = (if percent c \<le> 40 then ''Minor''
                                   else if percent c \<le> 70 then ''Moderate'' else ''Severe'')))"
    by (rule conjunct1 [OF conjunct2])
  from this h have "\<exists>c P. calculateConclusion ?data = Some c
           \<and> spec_percent ?data
               = sum_list (map (\<lambda>r. spec_weight (res_level r)) ?data) / real (length ?data)
           \<and> percent c = fl (of_int P / 10)
           \<and> \<bar>of_int P / 10 - spec_percent ?data\<bar> \<le> 1 / 20
           \<and> (of_int \<lfloor>spec_percent ?data * 10 + 1 / 2\<rfloor> \<noteq> spec_percent ?data * 10 + 1 / 2
                \<longrightarrow> of_int P / 10 = toFixed 1 (spec_percent ?data))
           \<and> label_c c = (if spec_percent ?data \<le> 40 then ''Minor''
                           else if spec_percent ?data \<le> 70 then ''Moderate'' else ''Severe'')
           \<and> (length ?data < 600
                \<longrightarrow> label_c c = (if percent c \<le> 40 then ''Minor''
                                   else if percent c \<le> 70 then ''Moderate'' else ''Severe''))"
    by (rule mp)
  then obtain c P where cc: "calculateConclusion ?data = Some c"
    and "spec_percent ?data
               = sum_list (map (\<lambda>r. spec_weight (res_level r)) ?data) / real (length ?data)"
    and pc: "percent c = fl (of_int P / 10)"
    and "\<bar>of_int P / 10 - spec_percent ?data\<bar> \<le> 1 / 20"
    and nt: "of_int \<lfloor>spec_percent ?data * 10 + 1 / 2\<rfloor> \<noteq> spec_percent ?data * 10 + 1 / 2
               \<longrightarrow> of_int P / 10 = toFixed 1 (spec_percent ?data)"
    and lc: "label_c c = (if spec_percent ?data \<le> 40 then ''Minor''
                          else if spec_percent ?data \<le> 70 then ''Moderate'' else ''Severe'')"
    and "length ?data < 600
                \<longrightarrow> label_c c = (if percent c \<le> 40 then ''Minor''
                                   else if percent c \<le> 70 then ''Moderate'' else ''Severe'')"
    by (elim exE conjE)
  have "of_int P / 10 = (60::real)" using nt by (simp add: sp tf [unfolded One_nat_def])
  then have "percent c = 60" using pc by (simp add: fl_numeral)
  moreover have "label_c c = ''Moderate''" using lc by (simp add: sp)
  ultimately have "c = \<lparr>percent = 60, label_c = ''Moderate''\<rparr>" by (cases c) simp
  then have 1: "calculateConclusion ?data = Some \<lparr>percent = 60, label_c = ''Moderate''\<rparr>"
    using cc by simp
  have "res_level example_minor = Level_A \<and> res_level example_severe = Level_C"
    by (simp add: example_minor_def example_severe_def)
  moreover from t have "res_level example_minor = Level_A \<and> res_level example_severe = Level_C
      \<longrightarrow> calculateConclusion [example_minor, example_severe]
            = Some \<lparr>percent = 70, label_c = ''Moderate''\<rparr>"
    by (rule conjunct2 [OF conjunct2])
  ultimately have 2: "calculateConclusion [example_minor, example_severe]
       = Some \<lparr>percent = 70, label_c = ''Moderate''\<rparr>"
    by (rule rev_mp)
  show ?thesis using 1 sp 2 by (intro conjI)
qed

section \<open>The prediction endpoint: the claim\<close>









lemma POST_malformed_answer:
  "POST example_hostname (Some example_url) (OkJson (Some (Malformed m))) now nowISO
     (JsonBody None (Some example_sensorData)) = Json500 m"
  by (simp add: POST_def Let_def canCallMlService_def isLocalhostUrl_def example_hostname_def
      example_url_def opt_field_def example_sensorData_def)

lemma POST_null_answer:
  "\<exists>b. POST example_hostname (Some example_url) (OkJson None) now nowISO
          (JsonBody None (Some example_sensorData)) = Json200 b
       \<and> mlServiceStatus b = available \<and> mlPrediction b = None"
  by (simp add: POST_def Let_def canCallMlService_def isLocalhostUrl_def example_hostname_def
      example_url_def opt_field_def example_sensorData_def)




end
